theory Spec2Isabelle
  imports Complex_Main
begin

section \<open>JavaScript numbers\<close>

text \<open>
  The engines compute with JavaScript numbers. A number is modelled as an exact real,
  one of the two infinities, or NaN; \<open>undefined\<close> is \<open>None\<close> of an option type. The
  model follows IEEE 754 for every operation that leaves the finite numbers (division by
  zero, arithmetic and comparison with NaN and with the infinities). It is exact on the
  finite numbers: rounding error, overflow and the sign of zero are not modelled.
\<close>

datatype jsnum = Fin real | PInf | NInf | NaN

fun js_neg :: "jsnum \<Rightarrow> jsnum" where
  "js_neg (Fin a) = Fin (- a)"
| "js_neg PInf = NInf"
| "js_neg NInf = PInf"
| "js_neg NaN = NaN"

fun js_add :: "jsnum \<Rightarrow> jsnum \<Rightarrow> jsnum" where
  "js_add (Fin a) (Fin b) = Fin (a + b)"
| "js_add NaN _ = NaN"
| "js_add _ NaN = NaN"
| "js_add PInf NInf = NaN"
| "js_add NInf PInf = NaN"
| "js_add PInf _ = PInf"
| "js_add _ PInf = PInf"
| "js_add NInf _ = NInf"
| "js_add _ NInf = NInf"

definition js_sub :: "jsnum \<Rightarrow> jsnum \<Rightarrow> jsnum" where
  "js_sub a b = js_add a (js_neg b)"

fun js_mul :: "jsnum \<Rightarrow> jsnum \<Rightarrow> jsnum" where
  "js_mul (Fin a) (Fin b) = Fin (a * b)"
| "js_mul NaN _ = NaN"
| "js_mul _ NaN = NaN"
| "js_mul (Fin a) PInf = (if a = 0 then NaN else if 0 < a then PInf else NInf)"
| "js_mul (Fin a) NInf = (if a = 0 then NaN else if 0 < a then NInf else PInf)"
| "js_mul PInf (Fin b) = (if b = 0 then NaN else if 0 < b then PInf else NInf)"
| "js_mul NInf (Fin b) = (if b = 0 then NaN else if 0 < b then NInf else PInf)"
| "js_mul PInf PInf = PInf"
| "js_mul PInf NInf = NInf"
| "js_mul NInf PInf = NInf"
| "js_mul NInf NInf = PInf"

fun js_div :: "jsnum \<Rightarrow> jsnum \<Rightarrow> jsnum" where
  "js_div (Fin a) (Fin b) =
     (if b \<noteq> 0 then Fin (a / b)
      else if a = 0 then NaN else if 0 < a then PInf else NInf)"
| "js_div NaN _ = NaN"
| "js_div _ NaN = NaN"
| "js_div (Fin a) PInf = Fin 0"
| "js_div (Fin a) NInf = Fin 0"
| "js_div PInf (Fin b) = (if 0 \<le> b then PInf else NInf)"
| "js_div NInf (Fin b) = (if 0 \<le> b then NInf else PInf)"
| "js_div PInf PInf = NaN"
| "js_div PInf NInf = NaN"
| "js_div NInf PInf = NaN"
| "js_div NInf NInf = NaN"

text \<open>The comparison \<open>a < b\<close>; every comparison with NaN is false.\<close>

fun js_lt :: "jsnum \<Rightarrow> jsnum \<Rightarrow> bool" where
  "js_lt (Fin a) (Fin b) = (a < b)"
| "js_lt NaN _ = False"
| "js_lt _ NaN = False"
| "js_lt _ NInf = False"
| "js_lt NInf _ = True"
| "js_lt PInf _ = False"
| "js_lt _ PInf = True"

definition js_gt :: "jsnum \<Rightarrow> jsnum \<Rightarrow> bool" where
  "js_gt a b = js_lt b a"

text \<open>Strict equality \<open>===\<close> on numbers: NaN equals nothing, itself included.\<close>

definition js_eq :: "jsnum \<Rightarrow> jsnum \<Rightarrow> bool" where
  "js_eq a b = (a \<noteq> NaN \<and> a = b)"

fun Math_abs :: "jsnum \<Rightarrow> jsnum" where
  "Math_abs (Fin a) = Fin \<bar>a\<bar>"
| "Math_abs PInf = PInf"
| "Math_abs NInf = PInf"
| "Math_abs NaN = NaN"

definition Math_max :: "jsnum \<Rightarrow> jsnum \<Rightarrow> jsnum" where
  "Math_max a b = (if a = NaN \<or> b = NaN then NaN else if js_lt a b then b else a)"

definition Math_min :: "jsnum \<Rightarrow> jsnum \<Rightarrow> jsnum" where
  "Math_min a b = (if a = NaN \<or> b = NaN then NaN else if js_lt b a then b else a)"

text \<open>\<open>Math.round\<close> rounds to the nearest integer, a tie towards plus infinity.\<close>

fun Math_round :: "jsnum \<Rightarrow> jsnum" where
  "Math_round (Fin a) = Fin (of_int \<lfloor>a + 1 / 2\<rfloor>)"
| "Math_round PInf = PInf"
| "Math_round NInf = NInf"
| "Math_round NaN = NaN"

fun Math_sqrt :: "jsnum \<Rightarrow> jsnum" where
  "Math_sqrt (Fin a) = (if a < 0 then NaN else Fin (sqrt a))"
| "Math_sqrt PInf = PInf"
| "Math_sqrt NInf = NaN"
| "Math_sqrt NaN = NaN"

text \<open>\<open>ToNumber\<close> on a value that is a number or \<open>undefined\<close>.\<close>

fun toNumber :: "jsnum option \<Rightarrow> jsnum" where
  "toNumber None = NaN"
| "toNumber (Some a) = a"

text \<open>Truthiness of such a value: \<open>undefined\<close>, 0 and NaN are falsy.\<close>

fun truthy :: "jsnum option \<Rightarrow> bool" where
  "truthy None = False"
| "truthy (Some (Fin a)) = (a \<noteq> 0)"
| "truthy (Some NaN) = False"
| "truthy (Some _) = True"

datatype action = BUY | SELL | HOLD

datatype js_error = TypeError

section \<open>SmartDecisionEngine: dual-source analysis\<close>

text \<open>
  The indicator object of one quote source, as \<open>analyzeTechnicalSignals\<close> reads it.
  A field may be absent (\<open>undefined\<close>). A source that is present carries its price and
  its indicator object.
\<close>

record source_indicators =
  rsi :: "jsnum option"
  macd :: "jsnum option"
  sma20 :: "jsnum option"
  currentPrice :: "jsnum option"

record market_data =
  md_currentPrice :: jsnum
  technicalIndicators :: source_indicators

record pocket_data =
  price :: jsnum
  indicators :: source_indicators

text \<open>One entry of the \<open>signals\<close> array: \<open>{type, value, agreement}\<close>.\<close>

record signal_entry =
  se_type :: string
  se_value :: real
  se_agreement :: bool

text \<open>
  The local variables of \<open>analyzeTechnicalSignals\<close>. The counters start at 0 and are
  only incremented by literals, so they are finite by construction.
\<close>

record analysis_state =
  st_signals :: "signal_entry list"
  st_factors :: "string list"
  st_bullishCount :: real
  st_bearishCount :: real
  st_agreementCount :: nat
  st_totalSignals :: nat

definition rsiAnalysis ::
  "source_indicators \<Rightarrow> source_indicators \<Rightarrow> analysis_state \<Rightarrow> analysis_state" where
  "rsiAnalysis marketIndicators pocketIndicators s =
     (if truthy (rsi marketIndicators) \<and> truthy (rsi pocketIndicators) then
        (let marketRSI = toNumber (rsi marketIndicators);
             pocketRSI = toNumber (rsi pocketIndicators);
             agree = js_lt (Math_abs (js_sub marketRSI pocketRSI)) (Fin 10);
             s1 = (if js_lt marketRSI (Fin 30) \<and> js_lt pocketRSI (Fin 35) then
                     (1, s\<lparr>st_bullishCount := st_bullishCount s + 1,
                           st_factors := st_factors s @ [''RSI oversold in both sources'']\<rparr>)
                   else if js_gt marketRSI (Fin 70) \<and> js_gt pocketRSI (Fin 65) then
                     (- 1, s\<lparr>st_bearishCount := st_bearishCount s + 1,
                             st_factors := st_factors s @ [''RSI overbought in both sources'']\<rparr>)
                   else if (js_lt marketRSI (Fin 30) \<and> js_gt pocketRSI (Fin 35))
                         \<or> (js_gt marketRSI (Fin 70) \<and> js_lt pocketRSI (Fin 65)) then
                     (0, s\<lparr>st_factors :=
                              st_factors s @ [''RSI signals diverge between sources'']\<rparr>)
                   else (0, s))
         in (snd s1)
              \<lparr>st_signals := st_signals (snd s1) @
                 [\<lparr>se_type = ''RSI'', se_value = fst s1, se_agreement = agree\<rparr>],
               st_agreementCount :=
                 (if agree then st_agreementCount (snd s1) + 1 else st_agreementCount (snd s1)),
               st_totalSignals := st_totalSignals (snd s1) + 1\<rparr>)
      else s)"

definition macdAnalysis ::
  "source_indicators \<Rightarrow> source_indicators \<Rightarrow> analysis_state \<Rightarrow> analysis_state" where
  "macdAnalysis marketIndicators pocketIndicators s =
     (if truthy (macd marketIndicators) \<and> truthy (macd pocketIndicators) then
        (let marketMACD = toNumber (macd marketIndicators);
             pocketMACD = toNumber (macd pocketIndicators);
             agree = (js_gt marketMACD (Fin 0) = js_gt pocketMACD (Fin 0));
             s1 = (if js_gt marketMACD (Fin 0) \<and> js_gt pocketMACD (Fin 0) then
                     (1, s\<lparr>st_bullishCount := st_bullishCount s + 1,
                           st_factors := st_factors s @ [''MACD bullish in both sources'']\<rparr>)
                   else if js_lt marketMACD (Fin 0) \<and> js_lt pocketMACD (Fin 0) then
                     (- 1, s\<lparr>st_bearishCount := st_bearishCount s + 1,
                             st_factors := st_factors s @ [''MACD bearish in both sources'']\<rparr>)
                   else
                     (0, s\<lparr>st_factors :=
                              st_factors s @ [''MACD signals diverge between sources'']\<rparr>))
         in (snd s1)
              \<lparr>st_signals := st_signals (snd s1) @
                 [\<lparr>se_type = ''MACD'', se_value = fst s1, se_agreement = agree\<rparr>],
               st_agreementCount :=
                 (if agree then st_agreementCount (snd s1) + 1 else st_agreementCount (snd s1)),
               st_totalSignals := st_totalSignals (snd s1) + 1\<rparr>)
      else s)"

text \<open>\<open>x || 0\<close> on a number or \<open>undefined\<close>.\<close>

definition orZero :: "jsnum option \<Rightarrow> jsnum" where
  "orZero v = (if truthy v then toNumber v else Fin 0)"

definition smaAnalysis ::
  "source_indicators \<Rightarrow> source_indicators \<Rightarrow> analysis_state \<Rightarrow> analysis_state" where
  "smaAnalysis marketIndicators pocketIndicators s =
     (if truthy (sma20 marketIndicators) \<and> truthy (sma20 pocketIndicators) then
        (let marketPrice = orZero (currentPrice marketIndicators);
             pocketPrice = orZero (currentPrice pocketIndicators);
             marketAboveSMA = js_gt marketPrice (toNumber (sma20 marketIndicators));
             pocketAboveSMA = js_gt pocketPrice (toNumber (sma20 pocketIndicators));
             agree = (marketAboveSMA = pocketAboveSMA);
             s1 = (if marketAboveSMA \<and> pocketAboveSMA then
                     (1 / 2, s\<lparr>st_bullishCount := st_bullishCount s + 1 / 2,
                           st_factors := st_factors s @ [''Price above SMA(20) in both sources'']\<rparr>)
                   else if \<not> marketAboveSMA \<and> \<not> pocketAboveSMA then
                     (- (1 / 2), s\<lparr>st_bearishCount := st_bearishCount s + 1 / 2,
                             st_factors := st_factors s @ [''Price below SMA(20) in both sources'']\<rparr>)
                   else
                     (0, s\<lparr>st_factors :=
                              st_factors s @ [''SMA signals diverge between sources'']\<rparr>))
         in (snd s1)
              \<lparr>st_signals := st_signals (snd s1) @
                 [\<lparr>se_type = ''SMA'', se_value = fst s1, se_agreement = agree\<rparr>],
               st_agreementCount :=
                 (if agree then st_agreementCount (snd s1) + 1 else st_agreementCount (snd s1)),
               st_totalSignals := st_totalSignals (snd s1) + 1\<rparr>)
      else s)"

text \<open>The object \<open>analyzeTechnicalSignals\<close> returns.\<close>

record technical_signals =
  signals :: "signal_entry list"
  factors :: "string list"
  bullishCount :: real
  bearishCount :: real
  agreement :: real
  totalSignals :: nat

definition analyzeTechnicalSignals ::
  "source_indicators \<Rightarrow> source_indicators \<Rightarrow> technical_signals" where
  "analyzeTechnicalSignals marketIndicators pocketIndicators =
     (let s0 = \<lparr>st_signals = [], st_factors = [], st_bullishCount = 0, st_bearishCount = 0,
                st_agreementCount = 0, st_totalSignals = 0\<rparr>;
          s = smaAnalysis marketIndicators pocketIndicators
                (macdAnalysis marketIndicators pocketIndicators
                  (rsiAnalysis marketIndicators pocketIndicators s0))
      in \<lparr>signals = st_signals s, factors = st_factors s,
          bullishCount = st_bullishCount s, bearishCount = st_bearishCount s,
          agreement = (if 0 < st_totalSignals s
                       then real (st_agreementCount s) / real (st_totalSignals s) else 0),
          totalSignals = st_totalSignals s\<rparr>)"

definition calculateSignalStrength :: "technical_signals \<Rightarrow> real" where
  "calculateSignalStrength sigs =
     (let netBullish = bullishCount sigs - bearishCount sigs;
          maxPossible = (if totalSignals sigs \<noteq> 0 then real (totalSignals sigs) else 1)
      in netBullish / maxPossible)"

definition determineAction :: "jsnum \<Rightarrow> jsnum \<Rightarrow> action" where
  "determineAction signalStrength agreement' =
     (let agreementThreshold = Fin (6 / 10) in
      if js_lt agreement' agreementThreshold then HOLD
      else if js_gt signalStrength (Fin (3 / 10)) then BUY
      else if js_lt signalStrength (Fin (- (3 / 10))) then SELL
      else HOLD)"

definition calculateFinalConfidence :: "jsnum \<Rightarrow> jsnum \<Rightarrow> jsnum \<Rightarrow> jsnum \<Rightarrow> jsnum" where
  "calculateFinalConfidence baseConfidence signalStrength agreement' priceDiscrepancy' =
     (let confidence0 = baseConfidence;
          confidence1 = js_mul confidence0 (js_add (Fin 1) (Math_abs signalStrength));
          confidence2 = js_mul confidence1 (js_add (Fin (1 / 2)) agreement');
          confidence3 = (if js_gt priceDiscrepancy' (Fin (2 / 100))
                         then js_mul confidence2 (js_sub (Fin 1) priceDiscrepancy')
                         else confidence2)
      in Math_max (Fin (1 / 10)) (Math_min (Fin (95 / 100)) confidence3))"

text \<open>
  The signal object. Its \<open>reasoning\<close> text and \<open>timestamp\<close> are left out: no property
  below reads them. The object has no other field.
\<close>

record intelligent_signal =
  symbol :: string
  sig_action :: action
  confidence :: jsnum
  marketPrice :: jsnum
  pocketOptionPrice :: jsnum
  priceDiscrepancy :: jsnum
  signalStrength :: jsnum
  sig_agreement :: jsnum
  factorsConsidered :: nat
  technicalFactors :: "string list"

definition createNeutralSignal :: "string \<Rightarrow> string \<Rightarrow> intelligent_signal" where
  "createNeutralSignal symb reason =
     \<lparr>symbol = symb, sig_action = HOLD, confidence = Fin (1 / 2),
      marketPrice = Fin 0, pocketOptionPrice = Fin 0, priceDiscrepancy = Fin 0,
      signalStrength = Fin 0, sig_agreement = Fin 0, factorsConsidered = 0,
      technicalFactors = []\<rparr>"

text \<open>
  \<open>generateIntelligentSignal\<close>; a source that is \<open>null\<close> or \<open>undefined\<close> is \<open>None\<close>.
  The append to the signal history does not change the signal returned.
\<close>

definition generateIntelligentSignal ::
  "string \<Rightarrow> market_data option \<Rightarrow> pocket_data option \<Rightarrow> intelligent_signal" where
  "generateIntelligentSignal symb marketData pocketOptionData =
     (case (marketData, pocketOptionData) of
        (Some md, Some pd) \<Rightarrow>
          (let marketPrice' = md_currentPrice md;
               pocketPrice = price pd;
               marketIndicators = technicalIndicators md;
               pocketIndicators = indicators pd;
               priceDiscrepancy' =
                 js_div (Math_abs (js_sub marketPrice' pocketPrice)) marketPrice';
               baseConfidence =
                 Math_max (Fin (3 / 10)) (js_sub (Fin 1) (js_mul priceDiscrepancy' (Fin 5)));
               sigs = analyzeTechnicalSignals marketIndicators pocketIndicators;
               signalStrength' = calculateSignalStrength sigs;
               action' = determineAction (Fin signalStrength') (Fin (agreement sigs));
               confidence' = calculateFinalConfidence baseConfidence (Fin signalStrength')
                               (Fin (agreement sigs)) priceDiscrepancy'
           in \<lparr>symbol = symb, sig_action = action', confidence = confidence',
               marketPrice = marketPrice', pocketOptionPrice = pocketPrice,
               priceDiscrepancy = js_mul priceDiscrepancy' (Fin 100),
               signalStrength = Math_abs (Fin signalStrength'),
               sig_agreement = Fin (agreement sigs),
               factorsConsidered = length (factors sigs),
               technicalFactors = factors sigs\<rparr>)
      | _ \<Rightarrow> createNeutralSignal symb ''Insufficient data'')"

section \<open>EnhancedTradingEngine: indicators from price bars\<close>

text \<open>
  A price bar, as the market data manager produces it; every field is a finite number.
\<close>

record price_bar =
  bar_timestamp :: int
  bar_open :: real
  bar_high :: real
  bar_low :: real
  bar_close :: real
  bar_volume :: real

text \<open>
  \<open>xs.slice(-n)\<close>: the last \<open>n\<close> elements, the whole array when it is shorter;
  \<open>slice(-0)\<close> is \<open>slice(0)\<close>, the whole array.
\<close>

definition slice_last :: "nat \<Rightarrow> 'a list \<Rightarrow> 'a list" where
  "slice_last n xs = (if n = 0 then xs else drop (length xs - n) xs)"

text \<open>\<open>xs.reduce((a, b) => a + b, 0)\<close>.\<close>

definition js_sum :: "jsnum list \<Rightarrow> jsnum" where
  "js_sum xs = foldl js_add (Fin 0) xs"

text \<open>\<open>xs[xs.length - 1]\<close>, which is \<open>undefined\<close> on the empty array.\<close>

definition last_elem :: "'a list \<Rightarrow> 'a option" where
  "last_elem xs = (if xs = [] then None else Some (last xs))"

text \<open>\<open>Math.pow(x, 2)\<close>.\<close>

definition Math_pow2 :: "jsnum \<Rightarrow> jsnum" where
  "Math_pow2 x = js_mul x x"

text \<open>The loop of \<open>calculateRSI\<close>: \<open>prices[i] - prices[i - 1]\<close> for \<open>i\<close> from 1.\<close>

fun price_changes :: "jsnum list \<Rightarrow> jsnum list" where
  "price_changes (x # y # ys) = js_sub y x # price_changes (y # ys)"
| "price_changes _ = []"

definition calculateRSI :: "jsnum list \<Rightarrow> nat \<Rightarrow> jsnum" where
  "calculateRSI prices period =
     (let gains = map (\<lambda>change. if js_gt change (Fin 0) then change else Fin 0)
                      (price_changes prices);
          losses = map (\<lambda>change. if js_lt change (Fin 0) then js_neg change else Fin 0)
                       (price_changes prices);
          avgGain = js_div (js_sum (slice_last period gains)) (Fin (real period));
          avgLoss = js_div (js_sum (slice_last period losses)) (Fin (real period))
      in if js_eq avgLoss (Fin 0) then Fin 100
         else (let rs = js_div avgGain avgLoss
               in js_sub (Fin 100) (js_div (Fin 100) (js_add (Fin 1) rs))))"

text \<open>
  \<open>calculateEMA\<close>: seeded with \<open>prices[0]\<close>, which is \<open>undefined\<close> on the empty array,
  where the loop does not run and \<open>undefined\<close> is returned.
\<close>

definition calculateEMA :: "jsnum list \<Rightarrow> nat \<Rightarrow> jsnum option" where
  "calculateEMA prices period =
     (let multiplier = js_div (Fin 2) (Fin (real period + 1))
      in case prices of
           [] \<Rightarrow> None
         | p # ps \<Rightarrow>
             Some (foldl (\<lambda>ema pr. js_add (js_mul pr multiplier)
                                          (js_mul ema (js_sub (Fin 1) multiplier))) p ps))"

record macd_result =
  m_macd :: jsnum
  m_signal :: "jsnum option"
  m_histogram :: jsnum

definition calculateMACD :: "jsnum list \<Rightarrow> macd_result" where
  "calculateMACD prices =
     (let ema12 = calculateEMA prices 12;
          ema26 = calculateEMA prices 26;
          macd' = js_sub (toNumber ema12) (toNumber ema26);
          signal = calculateEMA [macd'] 9
      in \<lparr>m_macd = macd', m_signal = signal,
          m_histogram = js_sub macd' (toNumber signal)\<rparr>)"

definition calculateSMA :: "jsnum list \<Rightarrow> nat \<Rightarrow> jsnum" where
  "calculateSMA prices period =
     (let slice = slice_last period prices
      in js_div (js_sum slice) (Fin (real (length slice))))"

record bollinger_bands =
  bb_upper :: jsnum
  bb_middle :: jsnum
  bb_lower :: jsnum

definition calculateBollingerBands :: "jsnum list \<Rightarrow> nat \<Rightarrow> real \<Rightarrow> bollinger_bands" where
  "calculateBollingerBands prices period stdDev =
     (let sma = calculateSMA prices period;
          slice = slice_last period prices;
          variance = js_div (foldl (\<lambda>acc pr. js_add acc (Math_pow2 (js_sub pr sma)))
                                   (Fin 0) slice)
                            (Fin (real period));
          std = Math_sqrt variance
      in \<lparr>bb_upper = js_add sma (js_mul std (Fin stdDev)),
          bb_middle = sma,
          bb_lower = js_sub sma (js_mul std (Fin stdDev))\<rparr>)"

text \<open>
  \<open>calculateStochastic\<close>. \<open>Math.min()\<close> of no argument is plus infinity and \<open>Math.max()\<close>
  minus infinity. On the empty array \<open>data[data.length - 1]\<close> is \<open>undefined\<close> and
  reading its \<open>close\<close> throws a TypeError.
\<close>

definition calculateStochastic :: "price_bar list \<Rightarrow> nat \<Rightarrow> js_error + jsnum" where
  "calculateStochastic data period =
     (let slice = slice_last period data;
          low = foldl Math_min PInf (map (\<lambda>d. Fin (bar_low d)) slice);
          high = foldl Math_max NInf (map (\<lambda>d. Fin (bar_high d)) slice)
      in case last_elem data of
           None \<Rightarrow> Inl TypeError
         | Some d \<Rightarrow>
             (let current = Fin (bar_close d)
              in Inr (js_mul (js_div (js_sub current low) (js_sub high low)) (Fin 100))))"

record volume_analysis =
  v_current :: "jsnum option"
  v_average :: jsnum
  v_trend :: string

definition analyzeVolume :: "jsnum list \<Rightarrow> volume_analysis" where
  "analyzeVolume volumes =
     (let recent = slice_last 5 volumes;
          avg = js_div (js_sum recent) (Fin (real (length recent)));
          current = last_elem volumes
      in \<lparr>v_current = current, v_average = avg,
          v_trend = (if js_gt (toNumber current) (js_mul avg (Fin (12 / 10))) then ''increasing''
                     else if js_lt (toNumber current) (js_mul avg (Fin (8 / 10)))
                     then ''decreasing'' else ''stable'')\<rparr>)"

text \<open>
  The loop of \<open>calculateVolatility\<close> walks back from the latest bar: its \<open>i\<close>-th return
  is taken between the bars at \<open>length - i\<close> and \<open>length - i - 1\<close>, for \<open>i\<close> from 1
  while \<open>i < length\<close> and \<open>i \<le> period\<close>. On the closes in reverse order these are the
  first \<open>period\<close> returns of consecutive elements.
\<close>

fun returns_back :: "jsnum list \<Rightarrow> jsnum list" where
  "returns_back (c # p # ps) = js_div (js_sub c p) p # returns_back (p # ps)"
| "returns_back _ = []"

definition calculateVolatility :: "price_bar list \<Rightarrow> nat \<Rightarrow> jsnum" where
  "calculateVolatility data period =
     (let returns = take period (returns_back (rev (map (\<lambda>d. Fin (bar_close d)) data)));
          mean = js_div (js_sum returns) (Fin (real (length returns)));
          variance = js_div (foldl (\<lambda>acc ret. js_add acc (Math_pow2 (js_sub ret mean)))
                                   (Fin 0) returns)
                            (Fin (real (length returns)))
      in Math_sqrt variance)"

record technical_indicators =
  ti_rsi :: jsnum
  ti_macd :: macd_result
  ti_sma20 :: jsnum
  ti_sma50 :: jsnum
  ti_ema12 :: "jsnum option"
  ti_ema26 :: "jsnum option"
  ti_bollinger :: bollinger_bands
  ti_stochastic :: jsnum
  ti_volume :: volume_analysis
  ti_currentPrice :: "jsnum option"

text \<open>
  \<open>calculateTechnicalIndicators\<close>: of the calls in the object literal only
  \<open>calculateStochastic\<close> can throw, and then no object is built.
\<close>

definition calculateTechnicalIndicators :: "price_bar list \<Rightarrow> js_error + technical_indicators" where
  "calculateTechnicalIndicators data =
     (let prices = map (\<lambda>d. Fin (bar_close d)) data;
          volumes = map (\<lambda>d. Fin (bar_volume d)) data
      in case calculateStochastic data 14 of
           Inl e \<Rightarrow> Inl e
         | Inr stoch \<Rightarrow>
             Inr \<lparr>ti_rsi = calculateRSI prices 14,
                  ti_macd = calculateMACD prices,
                  ti_sma20 = calculateSMA prices 20,
                  ti_sma50 = calculateSMA prices 50,
                  ti_ema12 = calculateEMA prices 12,
                  ti_ema26 = calculateEMA prices 26,
                  ti_bollinger = calculateBollingerBands prices 20 2,
                  ti_stochastic = stoch,
                  ti_volume = analyzeVolume volumes,
                  ti_currentPrice = last_elem prices\<rparr>)"

section \<open>EnhancedTradingEngine: signal, confidence and zones\<close>

text \<open>
  The local variables of \<open>analyzeSignal\<close>: they start at 0 and change by literals only.
\<close>

record signal_state =
  ss_signalStrength :: real
  ss_signalCount :: nat
  ss_signals :: "string list"

definition push_signal :: "real \<Rightarrow> string \<Rightarrow> signal_state \<Rightarrow> signal_state" where
  "push_signal d name s =
     \<lparr>ss_signalStrength = ss_signalStrength s + d,
      ss_signalCount = ss_signalCount s + 1,
      ss_signals = ss_signals s @ [name]\<rparr>"

record trade_signal =
  ts_type :: action
  ts_strength :: jsnum
  ts_factors :: "string list"
  ts_rawStrength :: jsnum

text \<open>The four factor blocks of \<open>analyzeSignal\<close>, in order: RSI, MACD, moving averages,
  Bollinger bands.\<close>

definition analyzeFactors :: "technical_indicators \<Rightarrow> signal_state" where
  "analyzeFactors ind =
     (let s0 = \<lparr>ss_signalStrength = 0, ss_signalCount = 0, ss_signals = []\<rparr>;
          s1 = (if js_lt (ti_rsi ind) (Fin 30) then push_signal 1 ''RSI oversold'' s0
                else if js_gt (ti_rsi ind) (Fin 70) then push_signal (- 1) ''RSI overbought'' s0
                else s0);
          s2 = (if js_gt (m_histogram (ti_macd ind)) (Fin 0)
                    \<and> js_gt (m_macd (ti_macd ind)) (toNumber (m_signal (ti_macd ind)))
                then push_signal 1 ''MACD bullish crossover'' s1
                else if js_lt (m_histogram (ti_macd ind)) (Fin 0)
                    \<and> js_lt (m_macd (ti_macd ind)) (toNumber (m_signal (ti_macd ind)))
                then push_signal (- 1) ''MACD bearish crossover'' s1
                else s1);
          s3 = (if js_gt (toNumber (ti_currentPrice ind)) (ti_sma20 ind)
                    \<and> js_gt (ti_sma20 ind) (ti_sma50 ind)
                then push_signal (1 / 2) ''Price above moving averages'' s2
                else if js_lt (toNumber (ti_currentPrice ind)) (ti_sma20 ind)
                    \<and> js_lt (ti_sma20 ind) (ti_sma50 ind)
                then push_signal (- (1 / 2)) ''Price below moving averages'' s2
                else s2)
      in if js_lt (toNumber (ti_currentPrice ind)) (bb_lower (ti_bollinger ind))
         then push_signal (3 / 10) ''Price near lower Bollinger band'' s3
         else if js_gt (toNumber (ti_currentPrice ind)) (bb_upper (ti_bollinger ind))
         then push_signal (- (3 / 10)) ''Price near upper Bollinger band'' s3
         else s3)"

definition analyzeSignal :: "technical_indicators \<Rightarrow> trade_signal" where
  "analyzeSignal ind =
     (let s = analyzeFactors ind;
          avgSignal = (if 0 < ss_signalCount s
                       then ss_signalStrength s / real (ss_signalCount s) else 0);
          signalType = (if avgSignal > 3 / 10 then BUY
                        else if avgSignal < - (3 / 10) then SELL else HOLD)
      in \<lparr>ts_type = signalType, ts_strength = Fin \<bar>avgSignal\<bar>,
          ts_factors = ss_signals s, ts_rawStrength = Fin avgSignal\<rparr>)"

definition calculateDynamicConfidence :: "trade_signal \<Rightarrow> technical_indicators \<Rightarrow> jsnum" where
  "calculateDynamicConfidence signal ind =
     (let c0 = js_add (Fin (1 / 2)) (js_mul (ts_strength signal) (Fin (3 / 10)));
          c1 = (if js_lt (ti_rsi ind) (Fin 20) \<or> js_gt (ti_rsi ind) (Fin 80)
                then js_add c0 (Fin (15 / 100)) else c0);
          c2 = (if js_gt (Math_abs (m_histogram (ti_macd ind))) (Fin (1 / 2))
                then js_add c1 (Fin (1 / 10)) else c1);
          c3 = (if v_trend (ti_volume ind) = ''increasing''
                then js_add c2 (Fin (1 / 10)) else c2)
      in Math_max (Fin (1 / 10)) (Math_min (Fin (95 / 100)) c3))"

text \<open>
  \<open>x.toFixed(2)\<close> yields the decimal string of \<open>x\<close> rounded to two places, a tie away
  from zero in magnitude; the model returns the number that string denotes. NaN and the
  infinities print as themselves.
\<close>

definition round2 :: "real \<Rightarrow> real" where
  "round2 x =
     (if x < 0 then - (of_int \<lfloor>- x * 100 + 1 / 2\<rfloor> / 100)
      else of_int \<lfloor>x * 100 + 1 / 2\<rfloor> / 100)"

fun toFixed2 :: "jsnum \<Rightarrow> jsnum" where
  "toFixed2 (Fin x) = Fin (round2 x)"
| "toFixed2 PInf = PInf"
| "toFixed2 NInf = NInf"
| "toFixed2 NaN = NaN"

text \<open>
  The zones object. The source joins the two formatted bounds of the entry range into one
  string; the model keeps them as a pair (low, high).
\<close>

record zones =
  z_entry :: "jsnum \<times> jsnum"
  z_target :: jsnum
  z_stopLoss :: jsnum

definition calculateEntryExitZones :: "price_bar list \<Rightarrow> trade_signal \<Rightarrow> js_error + zones" where
  "calculateEntryExitZones marketData signal =
     (case last_elem marketData of
        None \<Rightarrow> Inl TypeError
      | Some d \<Rightarrow>
          (let currentPrice' = Fin (bar_close d);
               volatility = calculateVolatility marketData 20
           in if ts_type signal = BUY then
                (let entryLow = js_mul currentPrice'
                                  (js_sub (Fin 1) (js_mul volatility (Fin (1 / 2))));
                     entryHigh = js_mul currentPrice'
                                   (js_add (Fin 1) (js_mul volatility (Fin (2 / 10))))
                 in Inr \<lparr>z_entry = (toFixed2 entryLow, toFixed2 entryHigh),
                         z_target = toFixed2 (js_mul currentPrice'
                                      (js_add (Fin 1) (js_mul volatility (Fin 2)))),
                         z_stopLoss = toFixed2 (js_mul currentPrice'
                                        (js_sub (Fin 1) (js_mul volatility (Fin (15 / 10)))))\<rparr>)
              else if ts_type signal = SELL then
                (let entryLow = js_mul currentPrice'
                                  (js_sub (Fin 1) (js_mul volatility (Fin (2 / 10))));
                     entryHigh = js_mul currentPrice'
                                   (js_add (Fin 1) (js_mul volatility (Fin (1 / 2))))
                 in Inr \<lparr>z_entry = (toFixed2 entryLow, toFixed2 entryHigh),
                         z_target = toFixed2 (js_mul currentPrice'
                                      (js_sub (Fin 1) (js_mul volatility (Fin 2)))),
                         z_stopLoss = toFixed2 (js_mul currentPrice'
                                        (js_add (Fin 1) (js_mul volatility (Fin (15 / 10)))))\<rparr>)
              else
                Inr \<lparr>z_entry = (toFixed2 (js_mul currentPrice' (Fin (995 / 1000))),
                                toFixed2 (js_mul currentPrice' (Fin (1005 / 1000)))),
                     z_target = toFixed2 currentPrice',
                     z_stopLoss = toFixed2 currentPrice'\<rparr>))"

text \<open>
  The structured signal. Of its fields the asset name, the time frame, the contract
  period, the reasoning text and the time stamp are left out: no property below reads
  them, and none of their computations can throw.
\<close>

record structured_signal =
  g_signal :: action
  g_entryZone :: "jsnum \<times> jsnum"
  g_target :: jsnum
  g_stopLoss :: jsnum
  g_confidence :: jsnum

definition generateStructuredSignal :: "string \<Rightarrow> price_bar list \<Rightarrow> js_error + structured_signal" where
  "generateStructuredSignal symb marketData =
     (case calculateTechnicalIndicators marketData of
        Inl e \<Rightarrow> Inl e
      | Inr ind \<Rightarrow>
          (let signal = analyzeSignal ind;
               confidence' = calculateDynamicConfidence signal ind
           in case calculateEntryExitZones marketData signal of
                Inl e \<Rightarrow> Inl e
              | Inr zs \<Rightarrow>
                  Inr \<lparr>g_signal = ts_type signal,
                       g_entryZone = z_entry zs,
                       g_target = z_target zs,
                       g_stopLoss = z_stopLoss zs,
                       g_confidence = Math_round (js_mul confidence' (Fin 100))\<rparr>))"

section \<open>AdvancedTradingAI: trade recommendations\<close>

text \<open>
  The indicator object of a source as this engine reads it. An absent field behaves as
  NaN in every use the engine makes of it (arithmetic and comparison), so the fields
  are numbers. The indicator object itself may be absent.
\<close>

record ai_indicators =
  ai_rsi :: jsnum
  ai_macd :: jsnum
  ai_volumeMA :: jsnum

record ai_market_data =
  amd_currentPrice :: jsnum
  amd_volume :: jsnum
  amd_technicalIndicators :: "ai_indicators option"

record ai_pocket_data =
  apd_indicators :: "ai_indicators option"

datatype risk_level = low | medium | high

record market_analysis =
  ma_priceActionTrend :: string
  ma_priceActionStrength :: jsnum
  ma_volumeRelative :: jsnum
  ma_volumeTrend :: string
  ma_volatility :: jsnum
  ma_trendStrength :: jsnum
  ma_sourceAgreement :: jsnum
  ma_sentiment :: string
  ma_timestamp :: int

text \<open>
  \<open>analyzeMarketConditions\<close>. Reading a property of \<open>null\<close> or \<open>undefined\<close> throws a
  TypeError: \<open>marketData.technicalIndicators\<close>, then \<open>pocketOptionData.indicators\<close>, then
  \<open>market.volumeMA\<close>. The helpers called are constants, but for the volume ratio.
\<close>

definition analyzeMarketConditions ::
  "int \<Rightarrow> ai_market_data option \<Rightarrow> ai_pocket_data option \<Rightarrow> js_error + market_analysis" where
  "analyzeMarketConditions now marketData pocketOptionData =
     (case marketData of
        None \<Rightarrow> Inl TypeError
      | Some md \<Rightarrow>
          (case pocketOptionData of
             None \<Rightarrow> Inl TypeError
           | Some pd \<Rightarrow>
               (case amd_technicalIndicators md of
                  None \<Rightarrow> Inl TypeError
                | Some market \<Rightarrow>
                    Inr \<lparr>ma_priceActionTrend = ''neutral'',
                         ma_priceActionStrength = Fin (1 / 2),
                         ma_volumeRelative = js_div (amd_volume md) (ai_volumeMA market),
                         ma_volumeTrend = ''normal'',
                         ma_volatility = Fin (2 / 100),
                         ma_trendStrength = Fin (1 / 2),
                         ma_sourceAgreement = Fin (8 / 10),
                         ma_sentiment = ''neutral'',
                         ma_timestamp = now\<rparr>)))"

record indicator_signal =
  is_signal :: real
  is_value :: jsnum
  is_agreement :: bool

definition analyzeRSI :: "jsnum \<Rightarrow> jsnum \<Rightarrow> indicator_signal" where
  "analyzeRSI marketRSI pocketRSI =
     (let avgRSI = js_div (js_add marketRSI pocketRSI) (Fin 2);
          signal0 = (if js_lt avgRSI (Fin 30) then 1 else 0);
          signal1 = (if js_gt avgRSI (Fin 70) then - 1 else signal0)
      in \<lparr>is_signal = signal1, is_value = avgRSI,
          is_agreement = js_lt (Math_abs (js_sub marketRSI pocketRSI)) (Fin 10)\<rparr>)"

definition analyzeMacd :: "ai_indicators \<Rightarrow> ai_indicators \<Rightarrow> indicator_signal" where
  "analyzeMacd marketIndicators pocketIndicators =
     (let marketMACD = ai_macd marketIndicators;
          pocketMACD = ai_macd pocketIndicators;
          avgMACD = js_div (js_add marketMACD pocketMACD) (Fin 2);
          signal0 = (if js_gt avgMACD (Fin 0) then 1 else 0);
          signal1 = (if js_lt avgMACD (Fin 0) then - 1 else signal0)
      in \<lparr>is_signal = signal1, is_value = avgMACD,
          is_agreement = (js_gt marketMACD (Fin 0) = js_gt pocketMACD (Fin 0))\<rparr>)"

record composite_signal =
  cs_strength :: real
  cs_direction :: real

text \<open>
  \<open>calculateCompositeSignal\<close> walks the keys of the signals object; each of the seven
  entries there has a \<open>signal\<close>. The argument is the list of these values in key order.
\<close>

definition calculateCompositeSignal :: "real list \<Rightarrow> composite_signal" where
  "calculateCompositeSignal sigs =
     (let totalSignal = sum_list sigs;
          signalCount = length sigs
      in \<lparr>cs_strength = (if 0 < signalCount then \<bar>totalSignal / real signalCount\<bar> else 0),
          cs_direction = (if 0 < totalSignal then 1 else if totalSignal < 0 then - 1 else 0)\<rparr>)"

record advanced_signals =
  as_rsi :: indicator_signal
  as_macd :: indicator_signal
  as_movingAverages :: real
  as_bollingerBands :: real
  as_stochastic :: real
  as_pricePattern :: real
  as_volumeProfile :: real
  as_composite :: composite_signal

definition calculateAdvancedSignals ::
  "ai_market_data option \<Rightarrow> ai_pocket_data option \<Rightarrow> js_error + advanced_signals" where
  "calculateAdvancedSignals marketData pocketOptionData =
     (case marketData of
        None \<Rightarrow> Inl TypeError
      | Some md \<Rightarrow>
          (case amd_technicalIndicators md of
             None \<Rightarrow> Inl TypeError
           | Some market \<Rightarrow>
               (case pocketOptionData of
                  None \<Rightarrow> Inl TypeError
                | Some pd \<Rightarrow>
                    (case apd_indicators pd of
                       None \<Rightarrow> Inl TypeError
                     | Some pocket \<Rightarrow>
                         (let rsi' = analyzeRSI (ai_rsi market) (ai_rsi pocket);
                              macd' = analyzeMacd market pocket
                          in Inr \<lparr>as_rsi = rsi', as_macd = macd',
                                  as_movingAverages = 0, as_bollingerBands = 0,
                                  as_stochastic = 0, as_pricePattern = 0,
                                  as_volumeProfile = 0,
                                  as_composite = calculateCompositeSignal
                                    [is_signal rsi', is_signal macd', 0, 0, 0, 0, 0]\<rparr>)))))"

text \<open>
  The recommendation object. Left out are the reasoning text and the time stamp; of
  \<open>estimatedHoldTime\<close> the model keeps the number of hours the text is built from.
\<close>

record full_recommendation =
  r_symbol :: string
  r_action :: action
  r_confidence :: jsnum
  r_entryPrice :: jsnum
  r_bestEntryTime :: string
  r_entryWindow :: string
  r_positionSize :: jsnum
  r_positionAmount :: jsnum
  r_stopLoss :: jsnum
  r_takeProfit :: jsnum
  r_riskRewardRatio :: jsnum
  r_holdHours :: jsnum
  r_exitStrategy :: string
  r_signalStrength :: jsnum
  r_riskLevel :: risk_level
  r_patternMatch :: jsnum
  r_successProbability :: jsnum

record safe_recommendation =
  sr_symbol :: string
  sr_action :: action
  sr_confidence :: jsnum
  sr_reasoning :: string
  sr_riskLevel :: risk_level
  sr_bestEntryTime :: string
  sr_estimatedHoldTime :: string

datatype recommendation =
  Recommendation full_recommendation
| SafeRecommendation safe_recommendation

text \<open>
  A stored trade: symbol, time stamp, the recommendation, and \<open>success\<close>, which is
  absent (falsy) until an outcome is learned. The random identifier and the stored
  market analysis are left out.
\<close>

record trade_record =
  tr_symbol :: string
  tr_timestamp :: int
  tr_recommendation :: recommendation
  tr_success :: bool

record recent_performance =
  rp_accuracy :: real
  rp_totalTrades :: nat

definition getRecentPerformance :: "trade_record list \<Rightarrow> int \<Rightarrow> string \<Rightarrow> recent_performance" where
  "getRecentPerformance tradeHistory now symb =
     (let recentTrades = slice_last 10
            (filter (\<lambda>t. tr_symbol t = symb
                          \<and> tr_timestamp t > now - 7 * 24 * 60 * 60 * 1000) tradeHistory)
      in if length recentTrades = 0 then \<lparr>rp_accuracy = 1 / 2, rp_totalTrades = 0\<rparr>
         else \<lparr>rp_accuracy = real (length (filter tr_success recentTrades))
                              / real (length recentTrades),
               rp_totalTrades = length recentTrades\<rparr>)"

record historical_pattern =
  hp_similarity :: jsnum
  hp_successRate :: jsnum
  hp_avgHoldTime :: string

definition findSimilarPatterns :: "string \<Rightarrow> market_analysis \<Rightarrow> historical_pattern option" where
  "findSimilarPatterns symb analysis = None"

definition assessRiskLevel :: "advanced_signals \<Rightarrow> historical_pattern option \<Rightarrow> risk_level" where
  "assessRiskLevel sigs pattern = medium"

record ml_insights =
  ml_patternMatch :: jsnum
  ml_successProbability :: jsnum
  ml_riskLevel :: risk_level
  ml_recommendedHoldTime :: string
  ml_confidence :: jsnum

definition applyMachineLearning ::
  "trade_record list \<Rightarrow> int \<Rightarrow> string \<Rightarrow> advanced_signals \<Rightarrow> historical_pattern option
     \<Rightarrow> ml_insights" where
  "applyMachineLearning tradeHistory now symb sigs historicalPattern =
     (let i0 = \<lparr>ml_patternMatch = Fin 0, ml_successProbability = Fin (1 / 2),
                ml_riskLevel = medium, ml_recommendedHoldTime = ''2-4 hours'',
                ml_confidence = Fin (1 / 2)\<rparr>;
          i1 = (case historicalPattern of
                  None \<Rightarrow> i0
                | Some hp \<Rightarrow> i0\<lparr>ml_patternMatch := hp_similarity hp,
                                 ml_successProbability := hp_successRate hp,
                                 ml_recommendedHoldTime := hp_avgHoldTime hp\<rparr>);
          recentPerformance = getRecentPerformance tradeHistory now symb;
          i2 = (if rp_accuracy recentPerformance > 7 / 10
                then i1\<lparr>ml_confidence := js_mul (ml_confidence i1) (Fin (12 / 10))\<rparr>
                else if rp_accuracy recentPerformance < 4 / 10
                then i1\<lparr>ml_confidence := js_mul (ml_confidence i1) (Fin (8 / 10))\<rparr>
                else i1)
      in i2\<lparr>ml_riskLevel := assessRiskLevel sigs historicalPattern\<rparr>)"

definition calculateOptimalEntry :: "advanced_signals \<Rightarrow> string \<times> string" where
  "calculateOptimalEntry sigs =
     (if cs_strength (as_composite sigs) > 8 / 10 then (''Now'', ''0-5 minutes'')
      else if cs_strength (as_composite sigs) > 6 / 10
      then (''Next 30 minutes'', ''15-60 minutes'')
      else (''Wait for confirmation'', ''1-4 hours''))"

definition riskMultipliers :: "risk_level \<Rightarrow> real" where
  "riskMultipliers r = (case r of low \<Rightarrow> 15 / 10 | medium \<Rightarrow> 1 | high \<Rightarrow> 1 / 2)"

record position_size =
  ps_percentage :: jsnum
  ps_amount :: jsnum

definition calculatePositionSize :: "jsnum \<Rightarrow> risk_level \<Rightarrow> position_size" where
  "calculatePositionSize confidence' riskLevel =
     (let baseSize = Fin (1 / 10);
          adjustedSize = js_mul (js_mul baseSize confidence') (Fin (riskMultipliers riskLevel));
          percentage = Math_min (Math_max adjustedSize (Fin (2 / 100))) (Fin (25 / 100))
      in \<lparr>ps_percentage = Math_round (js_mul percentage (Fin 100)),
          ps_amount = Math_round (js_mul percentage (Fin 10000))\<rparr>)"

record risk_management =
  rm_stopLoss :: jsnum
  rm_takeProfit :: jsnum
  rm_ratio :: jsnum

text \<open>
  The local variables \<open>stopLoss\<close> and \<open>takeProfit\<close> of \<open>calculateRiskManagement\<close>, before
  they are rounded; \<open>None\<close> in the branch that returns early.
\<close>

definition risk_levels :: "jsnum \<Rightarrow> action \<Rightarrow> jsnum \<Rightarrow> (jsnum \<times> jsnum) option" where
  "risk_levels entryPrice act volatilityMultiplier =
     (if act = BUY then
        Some (js_mul entryPrice (js_sub (Fin 1) volatilityMultiplier),
              js_mul entryPrice (js_add (Fin 1) (js_mul volatilityMultiplier (Fin 2))))
      else if act = SELL then
        Some (js_mul entryPrice (js_add (Fin 1) volatilityMultiplier),
              js_mul entryPrice (js_sub (Fin 1) (js_mul volatilityMultiplier (Fin 2))))
      else None)"

definition calculateRiskManagement :: "jsnum \<Rightarrow> action \<Rightarrow> jsnum \<Rightarrow> risk_management" where
  "calculateRiskManagement entryPrice act volatility =
     (let volatilityMultiplier = Math_max (js_mul volatility (Fin 2)) (Fin (2 / 100))
      in case risk_levels entryPrice act volatilityMultiplier of
           None \<Rightarrow> \<lparr>rm_stopLoss = Fin 0, rm_takeProfit = Fin 0, rm_ratio = Fin 0\<rparr>
         | Some (stopLoss, takeProfit) \<Rightarrow>
             (let ratio = js_div (Math_abs (js_sub takeProfit entryPrice))
                                 (Math_abs (js_sub entryPrice stopLoss))
              in \<lparr>rm_stopLoss = js_div (Math_round (js_mul stopLoss (Fin 100))) (Fin 100),
                  rm_takeProfit = js_div (Math_round (js_mul takeProfit (Fin 100))) (Fin 100),
                  rm_ratio = js_div (Math_round (js_mul ratio (Fin 10))) (Fin 10)\<rparr>))"

definition estimateHoldTime :: "advanced_signals \<Rightarrow> ml_insights \<Rightarrow> jsnum \<Rightarrow> jsnum \<times> string" where
  "estimateHoldTime sigs mlInsights trendStrength =
     (let b0 = Fin 4;
          b1 = (if js_gt trendStrength (Fin (8 / 10)) then js_mul b0 (Fin 2) else b0);
          b2 = (if js_lt trendStrength (Fin (3 / 10)) then js_mul b1 (Fin (1 / 2)) else b1);
          b3 = (if cs_strength (as_composite sigs) > 8 / 10
                then js_mul b2 (Fin (15 / 10)) else b2);
          duration = Math_round b3;
          strategy = (if js_gt duration (Fin 8) then ''swing''
                      else if js_gt duration (Fin 2) then ''day'' else ''scalp'')
      in (duration, strategy @ '' trading''))"

definition generateFinalRecommendation ::
  "string \<Rightarrow> market_analysis \<Rightarrow> advanced_signals \<Rightarrow> ml_insights \<Rightarrow> jsnum
     \<Rightarrow> full_recommendation" where
  "generateFinalRecommendation symb marketAnalysis sigs mlInsights currentPrice' =
     (let composite = as_composite sigs;
          confidence' = Math_min (js_mul (ml_confidence mlInsights)
                                         (ma_sourceAgreement marketAnalysis))
                                 (Fin (95 / 100));
          confidenceThreshold = Fin (75 / 100);
          action' = (if cs_strength composite > 6 / 10 \<and> js_gt confidence' confidenceThreshold
                     then (if cs_direction composite > 0 then BUY else SELL)
                     else HOLD);
          entryTiming = calculateOptimalEntry sigs;
          positionSize = calculatePositionSize confidence' (ml_riskLevel mlInsights);
          riskManagement = calculateRiskManagement currentPrice' action'
                             (ma_volatility marketAnalysis);
          holdTime = estimateHoldTime sigs mlInsights (ma_trendStrength marketAnalysis)
      in \<lparr>r_symbol = symb, r_action = action',
          r_confidence = Math_round (js_mul confidence' (Fin 100)),
          r_entryPrice = currentPrice',
          r_bestEntryTime = fst entryTiming, r_entryWindow = snd entryTiming,
          r_positionSize = ps_percentage positionSize,
          r_positionAmount = ps_amount positionSize,
          r_stopLoss = rm_stopLoss riskManagement,
          r_takeProfit = rm_takeProfit riskManagement,
          r_riskRewardRatio = rm_ratio riskManagement,
          r_holdHours = fst holdTime, r_exitStrategy = snd holdTime,
          r_signalStrength = Math_round (Fin (cs_strength composite * 100)),
          r_riskLevel = ml_riskLevel mlInsights,
          r_patternMatch = Math_round (js_mul (ml_patternMatch mlInsights) (Fin 100)),
          r_successProbability =
            Math_round (js_mul (ml_successProbability mlInsights) (Fin 100))\<rparr>)"

text \<open>\<open>storeForLearning\<close> appends the trade and keeps the last 1000.\<close>

definition storeForLearning ::
  "trade_record list \<Rightarrow> int \<Rightarrow> string \<Rightarrow> recommendation \<Rightarrow> trade_record list" where
  "storeForLearning tradeHistory now symb rec =
     (let h = tradeHistory @ [\<lparr>tr_symbol = symb, tr_timestamp = now,
                                tr_recommendation = rec, tr_success = False\<rparr>]
      in if length h > 1000 then slice_last 1000 h else h)"

definition createSafeRecommendation :: "string \<Rightarrow> safe_recommendation" where
  "createSafeRecommendation symb =
     \<lparr>sr_symbol = symb, sr_action = HOLD, sr_confidence = Fin 50,
      sr_reasoning =
        ''Insufficient data for reliable analysis. Recommend waiting for clearer signals.'',
      sr_riskLevel = high, sr_bestEntryTime = ''Wait'', sr_estimatedHoldTime = ''N/A''\<rparr>"

text \<open>
  The body of the \<open>try\<close> block of \<open>generateTradeRecommendation\<close>: the error it throws, or
  the recommendation and the trade history after \<open>storeForLearning\<close>. The clock is read
  once, as \<open>now\<close>.
\<close>

definition tradeRecommendation_try ::
  "trade_record list \<Rightarrow> int \<Rightarrow> string \<Rightarrow> ai_market_data option \<Rightarrow> ai_pocket_data option
     \<Rightarrow> js_error + (recommendation \<times> trade_record list)" where
  "tradeRecommendation_try tradeHistory now symb marketData pocketOptionData =
     (case analyzeMarketConditions now marketData pocketOptionData of
        Inl e \<Rightarrow> Inl e
      | Inr marketAnalysis \<Rightarrow>
          (let historicalPattern = findSimilarPatterns symb marketAnalysis
           in case calculateAdvancedSignals marketData pocketOptionData of
                Inl e \<Rightarrow> Inl e
              | Inr sigs \<Rightarrow>
                  (let mlInsights = applyMachineLearning tradeHistory now symb sigs
                                      historicalPattern
                   in case marketData of
                        None \<Rightarrow> Inl TypeError
                      | Some md \<Rightarrow>
                          (let rec = Recommendation
                                 (generateFinalRecommendation symb marketAnalysis sigs
                                    mlInsights (amd_currentPrice md))
                           in Inr (rec, storeForLearning tradeHistory now symb rec)))))"

text \<open>
  \<open>generateTradeRecommendation\<close>: the \<open>catch\<close> clause logs the error and returns the safe
  recommendation; the trade history is then as it was.
\<close>

definition generateTradeRecommendation ::
  "trade_record list \<Rightarrow> int \<Rightarrow> string \<Rightarrow> ai_market_data option \<Rightarrow> ai_pocket_data option
     \<Rightarrow> recommendation \<times> trade_record list" where
  "generateTradeRecommendation tradeHistory now symb marketData pocketOptionData =
     (case tradeRecommendation_try tradeHistory now symb marketData pocketOptionData of
        Inr res \<Rightarrow> res
      | Inl error \<Rightarrow> (SafeRecommendation (createSafeRecommendation symb), tradeHistory))"

section \<open>Predicates used in the statements\<close>

text \<open>\<open>x\<close> is a finite number and lies between \<open>lo\<close> and \<open>hi\<close>.\<close>

definition js_between :: "real \<Rightarrow> jsnum \<Rightarrow> real \<Rightarrow> bool" where
  "js_between lo x hi = (case x of Fin c \<Rightarrow> lo \<le> c \<and> c \<le> hi | _ \<Rightarrow> False)"

section \<open>Clamping and rounding\<close>

lemma js_between_Fin: "js_between lo (Fin c) hi = (lo \<le> c \<and> c \<le> hi)"
  by (simp add: js_between_def)

lemma Math_max_Fin: "Math_max (Fin a) (Fin b) = Fin (max a b)"
  by (simp add: Math_max_def max_def)

lemma Math_min_Fin: "Math_min (Fin a) (Fin b) = Fin (min a b)"
  by (simp add: Math_min_def min_def)

lemma clamp_range:
  "js_between l (Math_max (Fin lo) (Math_min (Fin hi) (Fin c))) h
     = (l \<le> max lo (min hi c) \<and> max lo (min hi c) \<le> h)"
  by (simp add: Math_max_Fin Math_min_Fin js_between_Fin)

lemma clamp_between:
  "js_between lo (Math_max (Fin lo) (Math_min (Fin hi) (Fin c))) hi = (lo \<le> hi)"
  by (auto simp add: clamp_range)

lemma round_between:
  fixes c :: real
  assumes "of_int lo \<le> c" and "c \<le> of_int hi"
  shows "js_between (of_int lo) (Math_round (Fin c)) (of_int hi)"
proof -
  have "lo \<le> \<lfloor>c + 1 / 2\<rfloor>"
    using assms(1) by (simp add: le_floor_iff)
  moreover have "\<lfloor>c + 1 / 2\<rfloor> \<le> hi"
  proof -
    have "c + 1 / 2 < of_int (hi + 1)" using assms(2) by simp
    then have "\<lfloor>c + 1 / 2\<rfloor> < hi + 1" by (simp only: floor_less_iff)
    then show ?thesis by simp
  qed
  ultimately show ?thesis by (simp add: js_between_Fin)
qed

lemma pct_between:
  assumes "js_between (1 / 10) x (95 / 100)"
  shows "js_between 10 (Math_round (js_mul x (Fin 100))) 95"
proof (cases x)
  case (Fin c)
  with assms have "of_int 10 \<le> c * 100" and "c * 100 \<le> of_int 95"
    by (simp_all add: js_between_Fin)
  then have "js_between (of_int 10) (Math_round (Fin (c * 100))) (of_int 95)"
    by (rule round_between)
  with Fin show ?thesis by simp
qed (use assms in \<open>simp_all add: js_between_def\<close>)

lemma pct_floor:
  assumes "js_between (1 / 2) x (95 / 100)"
  shows "js_between 50 (Math_round (js_mul x (Fin 100))) 95"
proof (cases x)
  case (Fin c)
  with assms have "of_int 50 \<le> c * 100" and "c * 100 \<le> of_int 95"
    by (simp_all add: js_between_Fin)
  then have "js_between (of_int 50) (Math_round (Fin (c * 100))) (of_int 95)"
    by (rule round_between)
  with Fin show ?thesis by simp
qed (use assms in \<open>simp_all add: js_between_def\<close>)

section \<open>Confidence of the dual-source pipeline\<close>

lemma finalConfidence_between:
  "js_between (1 / 10) (calculateFinalConfidence (Fin b) (Fin s) (Fin a) (Fin d)) (95 / 100)"
  by (simp add: calculateFinalConfidence_def Let_def js_sub_def js_gt_def clamp_between)

lemma dynamicConfidence_between:
  "js_between (1 / 10)
     (calculateDynamicConfidence (signal\<lparr>ts_strength := Fin s\<rparr>) ind) (95 / 100)"
  by (simp add: calculateDynamicConfidence_def Let_def clamp_between)

lemma intelligent_confidence:
  assumes "md_currentPrice md = Fin m" and "m \<noteq> 0" and "price pd = Fin p"
  shows "js_between (1 / 10)
           (confidence (generateIntelligentSignal symb (Some md) (Some pd))) (95 / 100)"
proof -
  have d: "js_div (Math_abs (js_sub (Fin m) (Fin p))) (Fin m) = Fin (\<bar>m - p\<bar> / m)"
    using assms(2) by (simp add: js_sub_def)
  have b: "Math_max (Fin (3 / 10)) (js_sub (Fin 1) (js_mul (Fin (\<bar>m - p\<bar> / m)) (Fin 5)))
           = Fin (max (3 / 10) (1 - \<bar>m - p\<bar> / m * 5))"
    by (simp only: js_sub_def js_mul.simps js_neg.simps js_add.simps Math_max_Fin) simp
  show ?thesis
    by (simp only: generateIntelligentSignal_def Let_def prod.case option.case
          intelligent_signal.simps assms d b finalConfidence_between)
qed

text \<open>
  C1. With a finite, positive market price and a finite secondary price, the confidence
  that \<open>generateIntelligentSignal\<close> returns is a finite number in [0.1, 0.95], and its
  percentage \<open>Math.round(confidence * 100)\<close> lies in [10, 95]. The same holds of
  \<open>calculateFinalConfidence\<close> on any four finite arguments, and of
  \<open>calculateDynamicConfidence\<close> on a signal of any finite strength.
\<close>

theorem confidence_clamped:
  assumes "md_currentPrice md = Fin m" and "0 < m" and "price pd = Fin p"
  shows "js_between (1 / 10)
           (confidence (generateIntelligentSignal symb (Some md) (Some pd))) (95 / 100)
       \<and> js_between 10
           (Math_round (js_mul (confidence (generateIntelligentSignal symb (Some md) (Some pd)))
                               (Fin 100))) 95
       \<and> js_between (1 / 10)
           (calculateFinalConfidence (Fin b) (Fin s) (Fin a) (Fin d)) (95 / 100)
       \<and> js_between 10
           (Math_round (js_mul (calculateFinalConfidence (Fin b) (Fin s) (Fin a) (Fin d))
                               (Fin 100))) 95
       \<and> js_between (1 / 10)
           (calculateDynamicConfidence (signal\<lparr>ts_strength := Fin t\<rparr>) ind) (95 / 100)
       \<and> js_between 10
           (Math_round (js_mul (calculateDynamicConfidence (signal\<lparr>ts_strength := Fin t\<rparr>) ind)
                               (Fin 100))) 95"
proof -
  from assms have "js_between (1 / 10)
      (confidence (generateIntelligentSignal symb (Some md) (Some pd))) (95 / 100)"
    by (intro intelligent_confidence [of md m pd p]) simp_all
  then show ?thesis
    by (intro conjI pct_between finalConfidence_between dynamicConfidence_between)
qed

theorem confidence_clamped_witness:
  "md_currentPrice \<lparr>md_currentPrice = Fin 100, technicalIndicators =
       \<lparr>rsi = Some (Fin 10), macd = Some (Fin 1), sma20 = None, currentPrice = None\<rparr>\<rparr> = Fin 100
   \<and> (0::real) < 100
   \<and> price \<lparr>price = Fin 103, indicators =
       \<lparr>rsi = Some (Fin 12), macd = Some (Fin 2), sma20 = None, currentPrice = None\<rparr>\<rparr> = Fin 103
   \<and> js_between 10
       (Math_round (js_mul (confidence (generateIntelligentSignal ''AAPL''
          (Some \<lparr>md_currentPrice = Fin 100, technicalIndicators =
             \<lparr>rsi = Some (Fin 10), macd = Some (Fin 1), sma20 = None, currentPrice = None\<rparr>\<rparr>)
          (Some \<lparr>price = Fin 103, indicators =
             \<lparr>rsi = Some (Fin 12), macd = Some (Fin 2), sma20 = None, currentPrice = None\<rparr>\<rparr>)))
          (Fin 100))) 95"
  using confidence_clamped [of
      "\<lparr>md_currentPrice = Fin 100, technicalIndicators =
         \<lparr>rsi = Some (Fin 10), macd = Some (Fin 1), sma20 = None, currentPrice = None\<rparr>\<rparr>"
      100
      "\<lparr>price = Fin 103, indicators =
         \<lparr>rsi = Some (Fin 12), macd = Some (Fin 2), sma20 = None, currentPrice = None\<rparr>\<rparr>"
      103 "''AAPL''"]
  by simp

section \<open>Agreement threshold\<close>

lemma determineAction_low: "js_lt a (Fin (6 / 10)) \<Longrightarrow> determineAction s a = HOLD"
  by (simp add: determineAction_def)

text \<open>
  C2. For every pair of source indicator sets whose computed agreement score is below
  0.6, \<open>generateIntelligentSignal\<close> chooses HOLD, and \<open>determineAction\<close> answers HOLD on
  that agreement whatever the signal strength.
\<close>

theorem low_agreement_forces_hold:
  assumes "agreement (analyzeTechnicalSignals (technicalIndicators md) (indicators pd)) < 6 / 10"
  shows "sig_action (generateIntelligentSignal symb (Some md) (Some pd)) = HOLD
       \<and> determineAction strength
           (Fin (agreement (analyzeTechnicalSignals (technicalIndicators md) (indicators pd))))
         = HOLD"
  using assms by (simp add: generateIntelligentSignal_def Let_def determineAction_low)

text \<open>
  At this input both sources are oversold on RSI and bullish on MACD, so the signal
  strength is 1, but the RSI values differ by 20: one of two factors agrees.
\<close>

theorem low_agreement_forces_hold_witness:
  "agreement (analyzeTechnicalSignals
       \<lparr>rsi = Some (Fin 10), macd = Some (Fin 1), sma20 = None, currentPrice = None\<rparr>
       \<lparr>rsi = Some (Fin 30), macd = Some (Fin 2), sma20 = None, currentPrice = None\<rparr>) < 6 / 10
   \<and> calculateSignalStrength (analyzeTechnicalSignals
       \<lparr>rsi = Some (Fin 10), macd = Some (Fin 1), sma20 = None, currentPrice = None\<rparr>
       \<lparr>rsi = Some (Fin 30), macd = Some (Fin 2), sma20 = None, currentPrice = None\<rparr>) = 1
   \<and> sig_action (generateIntelligentSignal ''AAPL''
       (Some \<lparr>md_currentPrice = Fin 100, technicalIndicators =
          \<lparr>rsi = Some (Fin 10), macd = Some (Fin 1), sma20 = None, currentPrice = None\<rparr>\<rparr>)
       (Some \<lparr>price = Fin 100, indicators =
          \<lparr>rsi = Some (Fin 30), macd = Some (Fin 2), sma20 = None, currentPrice = None\<rparr>\<rparr>))
     = HOLD"
proof -
  have a: "agreement (analyzeTechnicalSignals
       \<lparr>rsi = Some (Fin 10), macd = Some (Fin 1), sma20 = None, currentPrice = None\<rparr>
       \<lparr>rsi = Some (Fin 30), macd = Some (Fin 2), sma20 = None, currentPrice = None\<rparr>) = 1 / 2"
    by (simp add: analyzeTechnicalSignals_def rsiAnalysis_def macdAnalysis_def
          smaAnalysis_def Let_def js_sub_def js_gt_def)
  have s: "calculateSignalStrength (analyzeTechnicalSignals
       \<lparr>rsi = Some (Fin 10), macd = Some (Fin 1), sma20 = None, currentPrice = None\<rparr>
       \<lparr>rsi = Some (Fin 30), macd = Some (Fin 2), sma20 = None, currentPrice = None\<rparr>) = 1"
    by (simp add: calculateSignalStrength_def analyzeTechnicalSignals_def rsiAnalysis_def
          macdAnalysis_def smaAnalysis_def Let_def js_sub_def js_gt_def)
  show ?thesis
    using low_agreement_forces_hold [of
        "\<lparr>md_currentPrice = Fin 100, technicalIndicators =
           \<lparr>rsi = Some (Fin 10), macd = Some (Fin 1), sma20 = None, currentPrice = None\<rparr>\<rparr>"
        "\<lparr>price = Fin 100, indicators =
           \<lparr>rsi = Some (Fin 30), macd = Some (Fin 2), sma20 = None, currentPrice = None\<rparr>\<rparr>"
        "''AAPL''"]
    by (simp add: a s)
qed

section \<open>A missing source\<close>

text \<open>
  C5 as stated fails: with the secondary source absent the agreement reported is 0,
  not 1.
\<close>

theorem single_source_agreement_counterexample:
  "sig_agreement (generateIntelligentSignal ''AAPL''
       (Some \<lparr>md_currentPrice = Fin 100, technicalIndicators =
          \<lparr>rsi = Some (Fin 50), macd = Some (Fin 1), sma20 = Some (Fin 99),
           currentPrice = None\<rparr>\<rparr>)
       None) \<noteq> Fin 1"
  by (simp add: generateIntelligentSignal_def createNeutralSignal_def)

text \<open>
  C5, amended. When a source is absent, \<open>generateIntelligentSignal\<close> returns the neutral
  signal built for error cases: action HOLD, confidence 0.5, agreement 0, price
  discrepancy 0, signal strength 0, both prices 0 and no technical factor. The signal
  object has no field that marks it as degraded.
\<close>

theorem single_source_neutral:
  "generateIntelligentSignal symb marketData None
     = \<lparr>symbol = symb, sig_action = HOLD, confidence = Fin (1 / 2),
        marketPrice = Fin 0, pocketOptionPrice = Fin 0, priceDiscrepancy = Fin 0,
        signalStrength = Fin 0, sig_agreement = Fin 0, factorsConsidered = 0,
        technicalFactors = []\<rparr>
   \<and> generateIntelligentSignal symb None pocketOptionData
       = generateIntelligentSignal symb marketData None"
  by (cases marketData) (simp_all add: generateIntelligentSignal_def createNeutralSignal_def)

section \<open>Confidence of the structured signal\<close>

lemma strength_nonneg: "\<exists>s. ts_strength (analyzeSignal ind) = Fin s \<and> 0 \<le> s"
  by (simp add: analyzeSignal_def Let_def)

lemma dynamic_floor:
  assumes "ts_strength signal = Fin s" and "0 \<le> s"
  shows "js_between (1 / 2) (calculateDynamicConfidence signal ind) (95 / 100)"
  using assms
  by (auto simp add: calculateDynamicConfidence_def Let_def clamp_range min_def max_def)

lemma stochastic_error: "calculateStochastic data n = Inl e \<Longrightarrow> data = []"
  by (auto simp add: calculateStochastic_def last_elem_def Let_def split: if_splits)

lemma indicators_error: "calculateTechnicalIndicators data = Inl e \<Longrightarrow> data = []"
  by (auto simp add: calculateTechnicalIndicators_def Let_def
        split: sum.splits dest: stochastic_error)

lemma zones_error: "calculateEntryExitZones data signal = Inl e \<Longrightarrow> data = []"
  by (auto simp add: calculateEntryExitZones_def last_elem_def Let_def split: if_splits)

text \<open>
  C10. For every indicator set the dynamic confidence of the signal analysed from it is
  a finite number in [0.5, 0.95]. \<open>generateStructuredSignal\<close> throws only on an empty
  bar array, and otherwise reports a confidence percentage in [50, 95].
\<close>

theorem dynamic_confidence_floor:
  "js_between (1 / 2) (calculateDynamicConfidence (analyzeSignal ind) ind) (95 / 100)
   \<and> (case generateStructuredSignal symb marketData of
        Inl e \<Rightarrow> marketData = []
      | Inr g \<Rightarrow> js_between 50 (g_confidence g) 95)"
proof
  show a: "js_between (1 / 2) (calculateDynamicConfidence (analyzeSignal i) i) (95 / 100)" for i
    using strength_nonneg [of i] dynamic_floor by blast
  show "case generateStructuredSignal symb marketData of
        Inl e \<Rightarrow> marketData = []
      | Inr g \<Rightarrow> js_between 50 (g_confidence g) 95"
    by (auto simp add: generateStructuredSignal_def Let_def
          split: sum.splits dest: indicators_error zones_error intro: pct_floor a)
qed

section \<open>The indicator library\<close>

lemma ema_fold_Fin:
  "\<exists>r. foldl (\<lambda>ema pr. js_add (js_mul pr (Fin m)) (js_mul ema (js_sub (Fin 1) (Fin m))))
          (Fin x) (map Fin ps) = Fin r"
  by (induction ps arbitrary: x) (simp_all add: js_sub_def)

lemma ema_Fin: "\<exists>r. calculateEMA (map Fin (p # ps)) n = Some (Fin r)"
proof -
  have "js_div (Fin 2) (Fin (real n + 1)) = Fin (2 / (real n + 1))"
    by (simp add: add_nonneg_eq_0_iff)
  then show ?thesis
    using ema_fold_Fin [of "2 / (real n + 1)" p ps]
    by (simp add: calculateEMA_def Let_def)
qed

lemma ema_single: "calculateEMA [x] n = Some x"
  by (simp add: calculateEMA_def Let_def)

lemma macd_signal: "m_signal (calculateMACD prices) = Some (m_macd (calculateMACD prices))"
  by (simp add: calculateMACD_def Let_def ema_single)

lemma macd_Fin:
  "\<exists>m. calculateMACD (map Fin (p # ps)) = \<lparr>m_macd = Fin m, m_signal = Some (Fin m), m_histogram = Fin 0\<rparr>"
proof -
  obtain a where a: "calculateEMA (map Fin (p # ps)) 12 = Some (Fin a)" using ema_Fin by blast
  obtain b where b: "calculateEMA (map Fin (p # ps)) 26 = Some (Fin b)" using ema_Fin by blast
  show ?thesis
    using a b by (simp add: calculateMACD_def Let_def ema_single js_sub_def)
qed

text \<open>
  C3. The code does not do what the claim says: \<open>calculateMACD\<close> passes the one-element
  array \<open>[macd]\<close> to \<open>calculateEMA\<close>, which returns its seed. For every price array the
  signal line is the latest macd value itself, and on finite closes the histogram is 0.
\<close>

theorem macd_signal_is_latest_macd:
  "m_signal (calculateMACD prices) = Some (m_macd (calculateMACD prices))
   \<and> m_histogram (calculateMACD (map Fin (p # ps))) = Fin 0"
proof
  show "m_signal (calculateMACD prices) = Some (m_macd (calculateMACD prices))"
    by (rule macd_signal)
  obtain m where "calculateMACD (map Fin (p # ps))
      = \<lparr>m_macd = Fin m, m_signal = Some (Fin m), m_histogram = Fin 0\<rparr>"
    using macd_Fin by blast
  then show "m_histogram (calculateMACD (map Fin (p # ps))) = Fin 0" by simp
qed

text \<open>
  C4. The code does not do what the claim says: \<open>calculateStochastic\<close> divides by
  \<open>high - low\<close> unguarded. On fourteen bars with high = low = close = 100 it returns
  NaN, not 0.
\<close>

theorem stochastic_flat_window:
  "calculateStochastic
     (map (\<lambda>t. \<lparr>bar_timestamp = t, bar_open = 100, bar_high = 100, bar_low = 100,
                 bar_close = 100, bar_volume = 1000\<rparr>)
          [1, 2, 3, 4, 5, 6, 7, 8, 9, 10, 11, 12, 13, 14]) 14 = Inr NaN"
  by (simp add: calculateStochastic_def slice_last_def last_elem_def Let_def
        Math_min_def Math_max_def js_sub_def)

section \<open>Windows shorter than the lookback\<close>

lemma slice_last_short: "length xs \<le> n \<Longrightarrow> slice_last n xs = xs"
  by (simp add: slice_last_def)

lemma length_price_changes: "length (price_changes xs) = length xs - 1"
  by (induction xs rule: price_changes.induct) simp_all

lemma ema_defined: "ps \<noteq> [] \<Longrightarrow> \<exists>a. calculateEMA ps n = Some a"
  by (cases ps) (simp_all add: calculateEMA_def Let_def)

lemma stochastic_defined: "data \<noteq> [] \<Longrightarrow> \<exists>v. calculateStochastic data n = Inr v"
  by (simp add: calculateStochastic_def last_elem_def Let_def)

text \<open>
  C6 as stated fails: on a window of two closes, shorter than every lookback, RSI, SMA
  and EMA return values.
\<close>

theorem short_window_counterexample:
  "length [Fin 1, Fin 2] < 14 + 1
   \<and> calculateRSI [Fin 1, Fin 2] 14 = Fin 100
   \<and> calculateSMA [Fin 1, Fin 2] 20 = Fin (3 / 2)
   \<and> calculateEMA [Fin 1, Fin 2] 12 \<noteq> None"
  by (simp add: calculateRSI_def calculateSMA_def calculateEMA_def
        slice_last_def js_sum_def js_sub_def js_gt_def js_eq_def Let_def)

text \<open>
  C6, amended. No indicator checks the length of its window. On a non-empty window that
  is not longer than the period, the trailing slice is the whole window and every
  indicator returns a value computed from all the prices there: SMA and the Bollinger
  middle band are the sum of all closes over their number, RSI averages the gains and
  losses of all price changes over the period, EMA and the MACD value are defined, the
  stochastic oscillator takes its extremes over all bars, and the indicator set is
  built without an error.
\<close>

theorem short_window_values:
  assumes "ps \<noteq> []" and "length ps \<le> n" and "data \<noteq> []" and "length data \<le> n"
  shows "calculateSMA ps n = js_div (js_sum ps) (Fin (real (length ps)))
       \<and> calculateRSI ps n =
           (let avgGain = js_div (js_sum (map (\<lambda>change. if js_gt change (Fin 0) then change
                                                          else Fin 0) (price_changes ps)))
                                 (Fin (real n));
                avgLoss = js_div (js_sum (map (\<lambda>change. if js_lt change (Fin 0)
                                                          then js_neg change else Fin 0)
                                              (price_changes ps)))
                                 (Fin (real n))
            in if js_eq avgLoss (Fin 0) then Fin 100
               else js_sub (Fin 100)
                      (js_div (Fin 100) (js_add (Fin 1) (js_div avgGain avgLoss))))
       \<and> (\<exists>a. calculateEMA ps n = Some a)
       \<and> (\<exists>a b. calculateEMA ps 12 = Some a \<and> calculateEMA ps 26 = Some b
                \<and> m_macd (calculateMACD ps) = js_sub a b)
       \<and> bb_middle (calculateBollingerBands ps n k)
           = js_div (js_sum ps) (Fin (real (length ps)))
       \<and> calculateStochastic data n =
           Inr (js_mul
                  (js_div
                     (js_sub (Fin (bar_close (last data)))
                             (foldl Math_min PInf (map (\<lambda>d. Fin (bar_low d)) data)))
                     (js_sub (foldl Math_max NInf (map (\<lambda>d. Fin (bar_high d)) data))
                             (foldl Math_min PInf (map (\<lambda>d. Fin (bar_low d)) data))))
                  (Fin 100))
       \<and> (\<exists>ind. calculateTechnicalIndicators data = Inr ind)"
proof -
  have sp: "slice_last n ps = ps" using assms(2) by (simp add: slice_last_short)
  have sd: "slice_last n data = data" using assms(4) by (simp add: slice_last_short)
  have "length (price_changes ps) \<le> n"
    using assms(2) by (simp add: length_price_changes)
  then have sg: "slice_last n (map f (price_changes ps)) = map f (price_changes ps)" for f
    by (simp add: slice_last_short)
  have sma: "calculateSMA ps n = js_div (js_sum ps) (Fin (real (length ps)))"
    by (simp add: calculateSMA_def Let_def sp)
  have rsi: "calculateRSI ps n =
           (let avgGain = js_div (js_sum (map (\<lambda>change. if js_gt change (Fin 0) then change
                                                          else Fin 0) (price_changes ps)))
                                 (Fin (real n));
                avgLoss = js_div (js_sum (map (\<lambda>change. if js_lt change (Fin 0)
                                                          then js_neg change else Fin 0)
                                              (price_changes ps)))
                                 (Fin (real n))
            in if js_eq avgLoss (Fin 0) then Fin 100
               else js_sub (Fin 100)
                      (js_div (Fin 100) (js_add (Fin 1) (js_div avgGain avgLoss))))"
    by (simp only: calculateRSI_def Let_def sg)
  obtain a where a: "calculateEMA ps 12 = Some a" using ema_defined [OF assms(1)] by blast
  obtain b where b: "calculateEMA ps 26 = Some b" using ema_defined [OF assms(1)] by blast
  have macd: "\<exists>a b. calculateEMA ps 12 = Some a \<and> calculateEMA ps 26 = Some b
                \<and> m_macd (calculateMACD ps) = js_sub a b"
    using a b by (simp add: calculateMACD_def Let_def)
  have bb: "bb_middle (calculateBollingerBands ps n k)
           = js_div (js_sum ps) (Fin (real (length ps)))"
    by (simp add: calculateBollingerBands_def Let_def sma)
  have st: "calculateStochastic data n =
           Inr (js_mul
                  (js_div
                     (js_sub (Fin (bar_close (last data)))
                             (foldl Math_min PInf (map (\<lambda>d. Fin (bar_low d)) data)))
                     (js_sub (foldl Math_max NInf (map (\<lambda>d. Fin (bar_high d)) data))
                             (foldl Math_min PInf (map (\<lambda>d. Fin (bar_low d)) data))))
                  (Fin 100))"
    using assms(3) by (simp add: calculateStochastic_def last_elem_def Let_def sd)
  have ti: "\<exists>ind. calculateTechnicalIndicators data = Inr ind"
    using stochastic_defined [OF assms(3), of 14]
    by (auto simp add: calculateTechnicalIndicators_def Let_def)
  show ?thesis
    using sma rsi ema_defined [OF assms(1), of n] macd bb st ti by (intro conjI)
qed

text \<open>Three closes 10, 11, 12 under a period of 14.\<close>

theorem short_window_values_witness:
  "[Fin 10, Fin 11, Fin 12] \<noteq> []
   \<and> length [Fin 10, Fin 11, Fin 12] \<le> (14::nat)
   \<and> calculateSMA [Fin 10, Fin 11, Fin 12] 14 = Fin 11
   \<and> calculateRSI [Fin 10, Fin 11, Fin 12] 14 = Fin 100
   \<and> calculateStochastic
        [\<lparr>bar_timestamp = 1, bar_open = 10, bar_high = 10, bar_low = 10,
           bar_close = 10, bar_volume = 1000\<rparr>,
         \<lparr>bar_timestamp = 2, bar_open = 10, bar_high = 11, bar_low = 10,
           bar_close = 11, bar_volume = 1000\<rparr>,
         \<lparr>bar_timestamp = 3, bar_open = 11, bar_high = 12, bar_low = 11,
           bar_close = 12, bar_volume = 1000\<rparr>] 14 = Inr (Fin 100)"
  using short_window_values [of "[Fin 10, Fin 11, Fin 12]" 14
        "[\<lparr>bar_timestamp = 1, bar_open = 10, bar_high = 10, bar_low = 10,
           bar_close = 10, bar_volume = 1000\<rparr>,
         \<lparr>bar_timestamp = 2, bar_open = 10, bar_high = 11, bar_low = 10,
           bar_close = 11, bar_volume = 1000\<rparr>,
         \<lparr>bar_timestamp = 3, bar_open = 11, bar_high = 12, bar_low = 11,
           bar_close = 12, bar_volume = 1000\<rparr>]" 2]
  by (simp add: js_sum_def js_sub_def js_gt_def js_eq_def Math_min_def Math_max_def Let_def)

section \<open>Entry and exit zones\<close>

lemma round2_mono:
  assumes "x \<le> y"
  shows "round2 x \<le> round2 y"
proof -
  consider "x < 0" "y < 0" | "x < 0" "0 \<le> y" | "0 \<le> x" "0 \<le> y"
    using assms by linarith
  then show ?thesis
  proof cases
    case 1
    have "\<lfloor>- y * 100 + 1 / 2\<rfloor> \<le> \<lfloor>- x * 100 + 1 / 2\<rfloor>"
      using assms by (intro floor_mono) simp
    then have "- (of_int \<lfloor>- x * 100 + 1 / 2\<rfloor> / 100) \<le> - (of_int \<lfloor>- y * 100 + 1 / 2\<rfloor> / (100::real))"
      by simp
    with 1 show ?thesis by (simp add: round2_def)
  next
    case 2
    have "0 \<le> \<lfloor>- x * 100 + 1 / 2\<rfloor>" using 2(1) by (simp add: le_floor_iff)
    then have a: "- (of_int \<lfloor>- x * 100 + 1 / 2\<rfloor> / 100) \<le> (0::real)" by simp
    have "0 \<le> \<lfloor>y * 100 + 1 / 2\<rfloor>" using 2(2) by (simp add: le_floor_iff)
    then have b: "(0::real) \<le> of_int \<lfloor>y * 100 + 1 / 2\<rfloor> / 100" by simp
    from a b have "- (of_int \<lfloor>- x * 100 + 1 / 2\<rfloor> / 100) \<le> of_int \<lfloor>y * 100 + 1 / 2\<rfloor> / (100::real)"
      by linarith
    with 2 show ?thesis by (simp add: round2_def)
  next
    case 3
    have "\<lfloor>x * 100 + 1 / 2\<rfloor> \<le> \<lfloor>y * 100 + 1 / 2\<rfloor>"
      using assms by (intro floor_mono) simp
    then have "of_int \<lfloor>x * 100 + 1 / 2\<rfloor> / 100 \<le> of_int \<lfloor>y * 100 + 1 / 2\<rfloor> / (100::real)"
      by (simp add: divide_right_mono)
    with 3 show ?thesis by (simp add: round2_def)
  qed
qed

lemma zone_bounds:
  fixes p v :: real
  assumes "0 \<le> p" and "0 \<le> v"
  shows "p * (1 - v * (1 / 2)) \<le> p * (1 + v * (2 / 10))"
    and "p * (1 - v * (2 / 10)) \<le> p * (1 + v * (1 / 2))"
    and "p * (995 / 1000) \<le> p * (1005 / 1000)"
proof -
  have "1 - v * (1 / 2) \<le> 1 + v * (2 / 10)" using assms(2) by simp
  then show "p * (1 - v * (1 / 2)) \<le> p * (1 + v * (2 / 10))"
    using assms(1) by (rule mult_left_mono)
  have "1 - v * (2 / 10) \<le> 1 + v * (1 / 2)" using assms(2) by simp
  then show "p * (1 - v * (2 / 10)) \<le> p * (1 + v * (1 / 2))"
    using assms(1) by (rule mult_left_mono)
  show "p * (995 / 1000) \<le> p * (1005 / 1000)"
    using assms(1) by (intro mult_left_mono) simp_all
qed

text \<open>
  C7, amended. For every action, every non-negative finite volatility and every
  non-negative current price, the two formatted bounds of the entry zone are finite and
  low \<open>\<le>\<close> high; when the action is HOLD, the target and the stop-loss are both the
  current price rounded to two decimals.
\<close>

theorem entry_zone_ordered:
  assumes "last_elem marketData = Some d" and "0 \<le> bar_close d"
    and "calculateVolatility marketData 20 = Fin v" and "0 \<le> v"
  shows "\<exists>z lo hi. calculateEntryExitZones marketData signal = Inr z
           \<and> z_entry z = (Fin lo, Fin hi) \<and> lo \<le> hi
           \<and> (ts_type signal = HOLD \<longrightarrow>
                z_target z = Fin (round2 (bar_close d))
                \<and> z_stopLoss z = Fin (round2 (bar_close d)))"
proof -
  let ?p = "bar_close d"
  note zb = zone_bounds [OF assms(2) assms(4)]
  show ?thesis
  proof (cases "ts_type signal")
    case BUY
    then show ?thesis
      using assms(1,3) round2_mono [OF zb(1)]
      by (simp add: calculateEntryExitZones_def Let_def js_sub_def)
  next
    case SELL
    then show ?thesis
      using assms(1,3) round2_mono [OF zb(2)]
      by (simp add: calculateEntryExitZones_def Let_def js_sub_def)
  next
    case HOLD
    then show ?thesis
      using assms(1,3) round2_mono [OF zb(3)]
      by (simp add: calculateEntryExitZones_def Let_def js_sub_def)
  qed
qed

lemma sqrt_400: "sqrt (1 / 400) = 1 / 20"
  by (rule real_sqrt_unique) (simp_all add: power2_eq_square)

lemma vol_ex:
  "calculateVolatility
       [\<lparr>bar_timestamp = 1, bar_open = 100, bar_high = 100, bar_low = 100, bar_close = 100, bar_volume = 1000\<rparr>,
        \<lparr>bar_timestamp = 2, bar_open = 100, bar_high = 110, bar_low = 100, bar_close = 110, bar_volume = 1000\<rparr>,
        \<lparr>bar_timestamp = 3, bar_open = 110, bar_high = 110, bar_low = 110, bar_close = 110, bar_volume = 1000\<rparr>] 20
   = Fin (1 / 20)"
  by (simp add: calculateVolatility_def Let_def js_sum_def js_sub_def Math_pow2_def sqrt_400)

text \<open>
  Three bars closing at 100, 110, 110: the returns are 0 and 1/10, the volatility 1/20.
\<close>

theorem entry_zone_ordered_witness:
  "last_elem
        [\<lparr>bar_timestamp = 1, bar_open = 100, bar_high = 100, bar_low = 100,
           bar_close = 100, bar_volume = 1000\<rparr>,
         \<lparr>bar_timestamp = 2, bar_open = 100, bar_high = 110, bar_low = 100,
           bar_close = 110, bar_volume = 1000\<rparr>,
         \<lparr>bar_timestamp = 3, bar_open = 110, bar_high = 110, bar_low = 110,
           bar_close = 110, bar_volume = 1000\<rparr>]
      = Some \<lparr>bar_timestamp = 3, bar_open = 110, bar_high = 110, bar_low = 110,
           bar_close = 110, bar_volume = 1000\<rparr>
   \<and> (0::real) \<le> 110
   \<and> calculateVolatility
        [\<lparr>bar_timestamp = 1, bar_open = 100, bar_high = 100, bar_low = 100,
           bar_close = 100, bar_volume = 1000\<rparr>,
         \<lparr>bar_timestamp = 2, bar_open = 100, bar_high = 110, bar_low = 100,
           bar_close = 110, bar_volume = 1000\<rparr>,
         \<lparr>bar_timestamp = 3, bar_open = 110, bar_high = 110, bar_low = 110,
           bar_close = 110, bar_volume = 1000\<rparr>] 20 = Fin (1 / 20)
   \<and> (0::real) \<le> 1 / 20
   \<and> calculateEntryExitZones
        [\<lparr>bar_timestamp = 1, bar_open = 100, bar_high = 100, bar_low = 100,
           bar_close = 100, bar_volume = 1000\<rparr>,
         \<lparr>bar_timestamp = 2, bar_open = 100, bar_high = 110, bar_low = 100,
           bar_close = 110, bar_volume = 1000\<rparr>,
         \<lparr>bar_timestamp = 3, bar_open = 110, bar_high = 110, bar_low = 110,
           bar_close = 110, bar_volume = 1000\<rparr>]
        \<lparr>ts_type = BUY, ts_strength = Fin 1, ts_factors = [''RSI oversold''],
           ts_rawStrength = Fin 1\<rparr>
      = Inr \<lparr>z_entry = (Fin (10725 / 100), Fin (11110 / 100)), z_target = Fin 121,
              z_stopLoss = Fin (10175 / 100)\<rparr>
   \<and> calculateEntryExitZones
        [\<lparr>bar_timestamp = 1, bar_open = 100, bar_high = 100, bar_low = 100,
           bar_close = 100, bar_volume = 1000\<rparr>,
         \<lparr>bar_timestamp = 2, bar_open = 100, bar_high = 110, bar_low = 100,
           bar_close = 110, bar_volume = 1000\<rparr>,
         \<lparr>bar_timestamp = 3, bar_open = 110, bar_high = 110, bar_low = 110,
           bar_close = 110, bar_volume = 1000\<rparr>]
        \<lparr>ts_type = HOLD, ts_strength = Fin 0, ts_factors = [], ts_rawStrength = Fin 0\<rparr>
      = Inr \<lparr>z_entry = (Fin (10945 / 100), Fin (11055 / 100)), z_target = Fin 110,
              z_stopLoss = Fin 110\<rparr>"
  using entry_zone_ordered [of
        "[\<lparr>bar_timestamp = 1, bar_open = 100, bar_high = 100, bar_low = 100,
           bar_close = 100, bar_volume = 1000\<rparr>,
         \<lparr>bar_timestamp = 2, bar_open = 100, bar_high = 110, bar_low = 100,
           bar_close = 110, bar_volume = 1000\<rparr>,
         \<lparr>bar_timestamp = 3, bar_open = 110, bar_high = 110, bar_low = 110,
           bar_close = 110, bar_volume = 1000\<rparr>]"
        "\<lparr>bar_timestamp = 3, bar_open = 110, bar_high = 110, bar_low = 110,
           bar_close = 110, bar_volume = 1000\<rparr>"
        "1 / 20"
        "\<lparr>ts_type = HOLD, ts_strength = Fin 0, ts_factors = [], ts_rawStrength = Fin 0\<rparr>"]
    vol_ex
  by (simp add: calculateEntryExitZones_def last_elem_def Let_def js_sub_def round2_def)

text \<open>
  C7 as stated fails: at a current price of 1.234 the HOLD target and stop-loss are 1.23,
  not the current price.
\<close>

theorem hold_target_counterexample:
  "calculateEntryExitZones
        [\<lparr>bar_timestamp = 1, bar_open = 1234 / 1000, bar_high = 1234 / 1000,
           bar_low = 1234 / 1000, bar_close = 1234 / 1000, bar_volume = 1000\<rparr>,
         \<lparr>bar_timestamp = 2, bar_open = 1234 / 1000, bar_high = 1234 / 1000,
           bar_low = 1234 / 1000, bar_close = 1234 / 1000, bar_volume = 1000\<rparr>]
        \<lparr>ts_type = HOLD, ts_strength = Fin 0, ts_factors = [], ts_rawStrength = Fin 0\<rparr>
      = Inr \<lparr>z_entry = (Fin (123 / 100), Fin (124 / 100)), z_target = Fin (123 / 100),
              z_stopLoss = Fin (123 / 100)\<rparr>
   \<and> Fin (123 / 100) \<noteq> Fin (1234 / 1000)"
  by (simp add: calculateEntryExitZones_def calculateVolatility_def last_elem_def Let_def
        js_sum_def js_sub_def Math_pow2_def round2_def)

section \<open>Risk management\<close>

lemma vm_Fin:
  "Math_max (js_mul (Fin v) (Fin 2)) (Fin (2 / 100)) = Fin (max (v * 2) (2 / 100))"
  by (simp add: Math_max_def max_def)

lemma ratio_two:
  fixes e m :: real
  assumes "0 < e" and "0 < m"
  shows "js_div (Math_abs (js_sub (Fin (e * (1 + m * 2))) (Fin e)))
                (Math_abs (js_sub (Fin e) (Fin (e * (1 - m))))) = Fin 2"
    and "js_div (Math_abs (js_sub (Fin (e * (1 - m * 2))) (Fin e)))
                (Math_abs (js_sub (Fin e) (Fin (e * (1 + m))))) = Fin 2"
proof -
  have em: "0 < e * m" using assms by simp
  have a: "\<bar>e * (1 + m * 2) - e\<bar> = 2 * (e * m)" using em by (simp add: algebra_simps)
  have b: "\<bar>e - e * (1 - m)\<bar> = e * m" using em by (simp add: algebra_simps)
  have c: "\<bar>e * (1 - m * 2) - e\<bar> = 2 * (e * m)" using em by (simp add: algebra_simps)
  have d: "\<bar>e - e * (1 + m)\<bar> = e * m" using em by (simp add: algebra_simps)
  have q: "js_div (Fin (2 * (e * m))) (Fin (e * m)) = Fin 2" using assms by simp
  have "js_div (Math_abs (js_sub (Fin (e * (1 + m * 2))) (Fin e)))
               (Math_abs (js_sub (Fin e) (Fin (e * (1 - m)))))
        = js_div (Fin \<bar>e * (1 + m * 2) - e\<bar>) (Fin \<bar>e - e * (1 - m)\<bar>)"
    by (simp add: js_sub_def)
  then show "js_div (Math_abs (js_sub (Fin (e * (1 + m * 2))) (Fin e)))
                (Math_abs (js_sub (Fin e) (Fin (e * (1 - m))))) = Fin 2"
    by (simp only: a b q)
  have "js_div (Math_abs (js_sub (Fin (e * (1 - m * 2))) (Fin e)))
               (Math_abs (js_sub (Fin e) (Fin (e * (1 + m)))))
        = js_div (Fin \<bar>e * (1 - m * 2) - e\<bar>) (Fin \<bar>e - e * (1 + m)\<bar>)"
    by (simp add: js_sub_def)
  then show "js_div (Math_abs (js_sub (Fin (e * (1 - m * 2))) (Fin e)))
                (Math_abs (js_sub (Fin e) (Fin (e * (1 + m))))) = Fin 2"
    by (simp only: c d q)
qed

lemma round_ratio: "js_div (Math_round (js_mul (Fin 2) (Fin 10))) (Fin 10) = Fin 2"
  by simp

lemma round_cents:
  fixes x :: real
  shows "\<bar>of_int \<lfloor>x * 100 + 1 / 2\<rfloor> / 100 - x\<bar> < 1 / 100"
proof -
  have "\<bar>of_int \<lfloor>x * 100 + 1 / 2\<rfloor> - x * 100\<bar> < (1::real)" by linarith
  then have "\<bar>(of_int \<lfloor>x * 100 + 1 / 2\<rfloor> - x * 100) / 100\<bar> < (1::real) / 100" by simp
  then show ?thesis by (simp add: diff_divide_distrib)
qed

lemma returned_level:
  "\<exists>s. js_div (Math_round (js_mul (Fin x) (Fin 100))) (Fin 100) = Fin s \<and> \<bar>s - x\<bar> < 1 / 100"
proof -
  have "js_div (Math_round (js_mul (Fin x) (Fin 100))) (Fin 100)
        = Fin (of_int \<lfloor>x * 100 + 1 / 2\<rfloor> / 100)" by simp
  with round_cents [of x] show ?thesis by blast
qed

text \<open>
  C8 as stated fails on the levels returned: at entry 0.485, BUY, volatility 0.02 the
  stop-loss returned is 0.47 and the take-profit 0.52, whose quotient is 7/3, while the
  ratio returned is 2.
\<close>

theorem returned_levels_counterexample:
  "calculateRiskManagement (Fin (485 / 1000)) BUY (Fin (2 / 100))
     = \<lparr>rm_stopLoss = Fin (47 / 100), rm_takeProfit = Fin (52 / 100), rm_ratio = Fin 2\<rparr>
   \<and> js_div (Math_abs (js_sub (Fin (52 / 100)) (Fin (485 / 1000))))
            (Math_abs (js_sub (Fin (485 / 1000)) (Fin (47 / 100)))) = Fin (7 / 3)
   \<and> Fin (7 / 3) \<noteq> Fin 2"
  by (simp add: calculateRiskManagement_def risk_levels_def Let_def Math_max_def js_sub_def)

text \<open>
  C8, amended. For an entry price between 0.000001 and 1000000000 and a volatility
  between 0 and 1, with \<open>m = max(2 * volatility, 0.02)\<close>: the ratio returned by
  \<open>calculateRiskManagement\<close> is 0 exactly when the action is HOLD; for BUY and SELL it
  is 2 and greater than 0, and it is the quotient |takeProfit - entry| / |entry - stopLoss|
  of the levels entry * (1 - m) and entry * (1 + 2 * m) (mirrored for SELL) as computed,
  not of the levels returned, which are these rounded to cents and lie within one cent
  of them.
\<close>

theorem risk_reward_ratio:
  assumes "1 / 1000000 \<le> e" and "e \<le> 1000000000" and "0 \<le> v" and "v \<le> 1"
    and "m = max (v * 2) (2 / 100)"
  shows "(rm_ratio (calculateRiskManagement (Fin e) act (Fin v)) = Fin 0) = (act = HOLD)
       \<and> (act \<noteq> HOLD \<longrightarrow>
            rm_ratio (calculateRiskManagement (Fin e) act (Fin v)) = Fin 2
            \<and> js_gt (rm_ratio (calculateRiskManagement (Fin e) act (Fin v))) (Fin 0))
       \<and> (act = BUY \<longrightarrow>
            rm_ratio (calculateRiskManagement (Fin e) act (Fin v))
              = Fin (\<bar>e * (1 + m * 2) - e\<bar> / \<bar>e - e * (1 - m)\<bar>)
            \<and> (\<exists>s t. rm_stopLoss (calculateRiskManagement (Fin e) act (Fin v)) = Fin s
                    \<and> rm_takeProfit (calculateRiskManagement (Fin e) act (Fin v)) = Fin t
                    \<and> \<bar>s - e * (1 - m)\<bar> < 1 / 100 \<and> \<bar>t - e * (1 + m * 2)\<bar> < 1 / 100))
       \<and> (act = SELL \<longrightarrow>
            rm_ratio (calculateRiskManagement (Fin e) act (Fin v))
              = Fin (\<bar>e * (1 - m * 2) - e\<bar> / \<bar>e - e * (1 + m)\<bar>)
            \<and> (\<exists>s t. rm_stopLoss (calculateRiskManagement (Fin e) act (Fin v)) = Fin s
                    \<and> rm_takeProfit (calculateRiskManagement (Fin e) act (Fin v)) = Fin t
                    \<and> \<bar>s - e * (1 + m)\<bar> < 1 / 100 \<and> \<bar>t - e * (1 - m * 2)\<bar> < 1 / 100))"
proof -
  have e: "0 < e" using assms(1) by simp
  have m: "0 < m" by (simp add: assms(5) max_def)
  have vm: "Math_max (js_mul (Fin v) (Fin 2)) (Fin (2 / 100)) = Fin m"
    by (simp only: vm_Fin assms(5))
  note r = ratio_two [OF e m]
  have em: "0 < e * m" using e m by simp
  have qb: "\<bar>e * (1 + m * 2) - e\<bar> / \<bar>e - e * (1 - m)\<bar> = 2"
  proof -
    have "\<bar>e * (1 + m * 2) - e\<bar> = 2 * (e * m)" using em by (simp add: algebra_simps)
    moreover have "\<bar>e - e * (1 - m)\<bar> = e * m" using em by (simp add: algebra_simps)
    moreover have "2 * (e * m) / (e * m) = 2" using e m by simp
    ultimately show ?thesis by simp
  qed
  have qs: "\<bar>e * (1 - m * 2) - e\<bar> / \<bar>e - e * (1 + m)\<bar> = 2"
  proof -
    have "\<bar>e * (1 - m * 2) - e\<bar> = 2 * (e * m)" using em by (simp add: algebra_simps)
    moreover have "\<bar>e - e * (1 + m)\<bar> = e * m" using em by (simp add: algebra_simps)
    moreover have "2 * (e * m) / (e * m) = 2" using e m by simp
    ultimately show ?thesis by simp
  qed
  show ?thesis
  proof (cases act)
    case BUY
    have lv: "risk_levels (Fin e) BUY (Fin m) = Some (Fin (e * (1 - m)), Fin (e * (1 + m * 2)))"
      by (simp add: risk_levels_def js_sub_def)
    have R: "calculateRiskManagement (Fin e) BUY (Fin v)
        = \<lparr>rm_stopLoss = js_div (Math_round (js_mul (Fin (e * (1 - m))) (Fin 100))) (Fin 100),
           rm_takeProfit = js_div (Math_round (js_mul (Fin (e * (1 + m * 2))) (Fin 100))) (Fin 100),
           rm_ratio = Fin 2\<rparr>"
      by (simp only: calculateRiskManagement_def Let_def vm lv option.case prod.case
            r round_ratio)
    show ?thesis
      using returned_level [of "e * (1 - m)"] returned_level [of "e * (1 + m * 2)"]
      by (simp only: BUY R risk_management.simps qb) (simp add: js_gt_def, blast)
  next
    case SELL
    have lv: "risk_levels (Fin e) SELL (Fin m) = Some (Fin (e * (1 + m)), Fin (e * (1 - m * 2)))"
      by (simp add: risk_levels_def js_sub_def)
    have R: "calculateRiskManagement (Fin e) SELL (Fin v)
        = \<lparr>rm_stopLoss = js_div (Math_round (js_mul (Fin (e * (1 + m))) (Fin 100))) (Fin 100),
           rm_takeProfit = js_div (Math_round (js_mul (Fin (e * (1 - m * 2))) (Fin 100))) (Fin 100),
           rm_ratio = Fin 2\<rparr>"
      by (simp only: calculateRiskManagement_def Let_def vm lv option.case prod.case
            r round_ratio)
    show ?thesis
      using returned_level [of "e * (1 + m)"] returned_level [of "e * (1 - m * 2)"]
      by (simp only: SELL R risk_management.simps qs) (simp add: js_gt_def, blast)
  next
    case HOLD
    then show ?thesis
      by (simp add: calculateRiskManagement_def risk_levels_def Let_def)
  qed
qed

theorem risk_reward_ratio_witness:
  "(1::real) / 1000000 \<le> 100 \<and> (100::real) \<le> 1000000000
   \<and> (0::real) \<le> 2 / 100 \<and> (2::real) / 100 \<le> 1
   \<and> (4::real) / 100 = max (2 / 100 * 2) (2 / 100)
   \<and> calculateRiskManagement (Fin 100) BUY (Fin (2 / 100))
       = \<lparr>rm_stopLoss = Fin 96, rm_takeProfit = Fin 108, rm_ratio = Fin 2\<rparr>
   \<and> calculateRiskManagement (Fin 100) SELL (Fin (2 / 100))
       = \<lparr>rm_stopLoss = Fin 104, rm_takeProfit = Fin 92, rm_ratio = Fin 2\<rparr>
   \<and> rm_ratio (calculateRiskManagement (Fin 100) HOLD (Fin (2 / 100))) = Fin 0"
  using risk_reward_ratio [of 100 "2 / 100" "4 / 100" BUY]
    risk_reward_ratio [of 100 "2 / 100" "4 / 100" HOLD]
  by (simp add: calculateRiskManagement_def risk_levels_def Let_def Math_max_def js_sub_def)

section \<open>Errors during a recommendation\<close>

text \<open>
  C9, amended. Whenever a step of the evaluation throws, \<open>generateTradeRecommendation\<close>
  catches the error and returns the safe recommendation for the symbol (action HOLD,
  confidence 50); the error is not surfaced to the caller, and the trade history is
  unchanged.
\<close>

theorem errors_are_caught:
  assumes "tradeRecommendation_try tradeHistory now symb marketData pocketOptionData = Inl e"
  shows "generateTradeRecommendation tradeHistory now symb marketData pocketOptionData
           = (SafeRecommendation (createSafeRecommendation symb), tradeHistory)
       \<and> sr_action (createSafeRecommendation symb) = HOLD
       \<and> sr_confidence (createSafeRecommendation symb) = Fin 50"
  using assms by (simp add: generateTradeRecommendation_def createSafeRecommendation_def)

theorem errors_are_caught_witness:
  "tradeRecommendation_try [] 0 ''AAPL'' None None = Inl TypeError
   \<and> generateTradeRecommendation [] 0 ''AAPL'' None None
       = (SafeRecommendation
            \<lparr>sr_symbol = ''AAPL'', sr_action = HOLD, sr_confidence = Fin 50,
             sr_reasoning =
               ''Insufficient data for reliable analysis. Recommend waiting for clearer signals.'',
             sr_riskLevel = high, sr_bestEntryTime = ''Wait'', sr_estimatedHoldTime = ''N/A''\<rparr>,
          [])"
proof -
  have t: "tradeRecommendation_try [] 0 ''AAPL'' None None = Inl TypeError"
    by (simp add: tradeRecommendation_try_def analyzeMarketConditions_def)
  show ?thesis
    using errors_are_caught [OF t] t by (simp add: createSafeRecommendation_def)
qed

text \<open>
  C9 as stated fails: with the secondary source absent the evaluation throws a
  TypeError, and a decision object is returned all the same.
\<close>

theorem swallowed_error_counterexample:
  "tradeRecommendation_try [] 0 ''AAPL''
       (Some \<lparr>amd_currentPrice = Fin 100, amd_volume = Fin 1000,
          amd_technicalIndicators =
            Some \<lparr>ai_rsi = Fin 25, ai_macd = Fin 1, ai_volumeMA = Fin 900\<rparr>\<rparr>)
       None = Inl TypeError
   \<and> generateTradeRecommendation [] 0 ''AAPL''
       (Some \<lparr>amd_currentPrice = Fin 100, amd_volume = Fin 1000,
          amd_technicalIndicators =
            Some \<lparr>ai_rsi = Fin 25, ai_macd = Fin 1, ai_volumeMA = Fin 900\<rparr>\<rparr>)
       None
     = (SafeRecommendation
          \<lparr>sr_symbol = ''AAPL'', sr_action = HOLD, sr_confidence = Fin 50,
           sr_reasoning =
             ''Insufficient data for reliable analysis. Recommend waiting for clearer signals.'',
           sr_riskLevel = high, sr_bestEntryTime = ''Wait'', sr_estimatedHoldTime = ''N/A''\<rparr>,
        [])"
  by (simp add: generateTradeRecommendation_def tradeRecommendation_try_def
        analyzeMarketConditions_def createSafeRecommendation_def)

end
